theory Spec2Isabelle
  imports Complex_Main
begin

section \<open>Enumerations and constants\<close>

text \<open>
  The enumerations of \<^verbatim>\<open>main.py\<close>. The members of \<^verbatim>\<open>RestockStatus\<close> are called
  \<^verbatim>\<open>open\<close> and \<^verbatim>\<open>closed\<close> in the source; both names are constants of the
  topology library, so the members carry the prefix \<open>rs_\<close> here.
\<close>

datatype LocationType = hospital | warehouse | vehicle | office | home | storage | other

datatype TrayStatus = ready | in_location | needs_restock

datatype RestockStatus = rs_open | rs_closed

definition COLOR_GREEN :: string where "COLOR_GREEN = ''green''"
definition COLOR_BLUE :: string where "COLOR_BLUE = ''blue''"
definition COLOR_YELLOW :: string where "COLOR_YELLOW = ''yellow''"
definition COLOR_ORANGE :: string where "COLOR_ORANGE = ''orange''"
definition COLOR_RED :: string where "COLOR_RED = ''red''"

section \<open>Priority and colour logic\<close>

text \<open>
  \<^verbatim>\<open>Optional[int]\<close> is \<open>int option\<close>. The function returns at the first test that
  succeeds; a numeric priority outside 1..3 falls through to the test of \<open>partial\<close>.
  The source's parameter \<^verbatim>\<open>ready\<close> is \<open>is_ready\<close> here, \<open>ready\<close> being the member
  of \<open>TrayStatus\<close>.
\<close>

definition map_color :: "int option \<Rightarrow> bool \<Rightarrow> bool \<Rightarrow> string" where
  "map_color priority_numeric partial is_ready =
     (if is_ready then COLOR_GREEN
      else case priority_numeric of
        Some n \<Rightarrow>
          (if n = 1 then COLOR_RED
           else if n = 2 then COLOR_ORANGE
           else if n = 3 then COLOR_YELLOW
           else if partial then COLOR_BLUE else COLOR_GREEN)
      | None \<Rightarrow> if partial then COLOR_BLUE else COLOR_GREEN)"

text \<open>
  \<^verbatim>\<open>new_partial\<close> is \<^verbatim>\<open>Optional[bool]\<close>; \<^verbatim>\<open>if new_partial:\<close> is taken exactly for
  \<open>Some True\<close>.
\<close>

definition apply_priority_non_downgrade ::
  "int option \<Rightarrow> bool \<Rightarrow> int option \<Rightarrow> bool option \<Rightarrow> int option \<times> bool" where
  "apply_priority_non_downgrade existing_numeric existing_partial new_numeric new_partial =
     (let out_numeric =
            (case new_numeric of
               None \<Rightarrow> existing_numeric
             | Some n \<Rightarrow>
                 (case existing_numeric of
                    None \<Rightarrow> Some n
                  | Some e \<Rightarrow> if n > e then Some n else Some e));
          out_partial =
            (if new_partial = Some True \<and> out_numeric = None then True else existing_partial)
      in (out_numeric, out_partial))"

text \<open>
  The two weekly figures are Python floats that are only compared; they are reals here.
\<close>

definition auto_escalation_suggestion :: "bool \<Rightarrow> real \<Rightarrow> real \<Rightarrow> bool \<Rightarrow> int option" where
  "auto_escalation_suggestion has_assigned_case_within_72h case_count_per_week
       tray_avg_weekly any_critical_missing =
     (let points = (if case_count_per_week > tray_avg_weekly then 1 else 0)
                 + (if has_assigned_case_within_72h then 1 else 0)
                 + (if any_critical_missing then 1 else (0::int))
      in if points \<ge> 3 then Some 3
         else if points = 2 then Some 2
         else if points = 1 then Some 1
         else None)"

section \<open>Tables\<close>

text \<open>
  The SQLModel tables the lifecycle uses, one record per class, with the source's field
  names; a field shared by several classes is written qualified (\<open>Tray.id\<close>,
  \<open>RestockTask.status\<close>). A stored row always has its primary key, so \<open>id\<close> is an
  \<open>int\<close>. A \<^verbatim>\<open>datetime\<close> is a number of clock ticks, a float coordinate a real; both
  are only stored and copied.
\<close>

type_synonym datetime = int

record Tray =
  id :: int
  name :: string
  status :: TrayStatus
  priority_numeric :: "int option"
  priority_partial :: bool
  color :: string
  last_seen_lat :: "real option"
  last_seen_lng :: "real option"
  last_seen_at :: "datetime option"
  last_location_type :: "LocationType option"
  last_location_name :: "string option"
  linked_case_id :: "string option"

record TrayItem =
  id :: int
  tray_id :: int
  sku :: string
  name :: string
  is_critical :: bool
  qty_expected :: "int option"
  qty_on_hand :: "int option"

record RestockTask =
  id :: int
  tray_id :: int
  status :: RestockStatus
  created_at :: datetime
  updated_at :: datetime

record RestockTaskItem =
  id :: int
  task_id :: int
  item_id :: int
  qty_missing :: "int option"
  reason :: "string option"
  restocked :: bool
  restocked_at :: "datetime option"
  restocked_by :: "string option"

text \<open>
  \<^verbatim>\<open>Event.payload_data\<close> is a JSON string made by \<^verbatim>\<open>json.dumps\<close> of a dictionary with
  one key; the key and its list are kept instead of the string. The field \<^verbatim>\<open>type\<close> of
  the source is \<open>event_type\<close>.
\<close>

datatype payload_data = items_flagged "int list" | restocked_items "int list"

record Event =
  id :: int
  tray_id :: int
  user_id :: string
  event_type :: string
  timestamp :: datetime
  gps_lat :: "real option"
  gps_lng :: "real option"
  device_meta :: "string option"
  location_type :: "LocationType option"
  case_id :: "string option"
  "notes" :: "string option"
  payload_data :: "payload_data option"

text \<open>
  The database is the content of the five tables, each in the order of insertion. A
  request works on its own session and the database keeps what the session commits.
\<close>

record db =
  trays :: "Tray list"
  tray_items :: "TrayItem list"
  restock_tasks :: "RestockTask list"
  restock_task_items :: "RestockTaskItem list"
  events :: "Event list"

definition empty_db :: db where
  "empty_db = \<lparr>trays = [], tray_items = [], restock_tasks = [], restock_task_items = [],
     events = []\<rparr>"

text \<open>
  SQLite gives a new row the key one above the largest key of its table, and 1 in an empty
  table.
\<close>

definition next_id :: "int list \<Rightarrow> int" where
  "next_id ids = fold max ids 0 + 1"

text \<open>\<^verbatim>\<open>session.get(Tray, k)\<close> and \<^verbatim>\<open>session.get(TrayItem, k)\<close>: the row with the key, or None.\<close>

definition get_Tray :: "db \<Rightarrow> int \<Rightarrow> Tray option" where
  "get_Tray d k = find (\<lambda>t. Tray.id t = k) (trays d)"

definition get_TrayItem :: "db \<Rightarrow> int \<Rightarrow> TrayItem option" where
  "get_TrayItem d k = find (\<lambda>i. TrayItem.id i = k) (tray_items d)"

text \<open>
  \<^verbatim>\<open>session.add(obj)\<close> of a changed object that is already stored: at the next flush the row
  with the object's key takes the object's fields.
\<close>

definition save_Tray :: "db \<Rightarrow> Tray \<Rightarrow> db" where
  "save_Tray d obj =
     d\<lparr>trays := map (\<lambda>t. if Tray.id t = Tray.id obj then obj else t) (trays d)\<rparr>"

definition save_TrayItem :: "db \<Rightarrow> TrayItem \<Rightarrow> db" where
  "save_TrayItem d obj =
     d\<lparr>tray_items :=
         map (\<lambda>i. if TrayItem.id i = TrayItem.id obj then obj else i) (tray_items d)\<rparr>"

definition save_RestockTask :: "db \<Rightarrow> RestockTask \<Rightarrow> db" where
  "save_RestockTask d obj =
     d\<lparr>restock_tasks :=
         map (\<lambda>t. if RestockTask.id t = RestockTask.id obj then obj else t) (restock_tasks d)\<rparr>"

definition save_RestockTaskItem :: "db \<Rightarrow> RestockTaskItem \<Rightarrow> db" where
  "save_RestockTaskItem d obj =
     d\<lparr>restock_task_items :=
         map (\<lambda>r. if RestockTaskItem.id r = RestockTaskItem.id obj then obj else r)
           (restock_task_items d)\<rparr>"

text \<open>
  The query for the open task of a tray, \<^verbatim>\<open>select(RestockTask).where(tray_id == k,
  status == open)\<close> with \<^verbatim>\<open>.first()\<close>, and the query for the unresolved rows of a task,
  \<^verbatim>\<open>select(RestockTaskItem).where(task_id == k, restocked == False)\<close> with \<^verbatim>\<open>.all()\<close>.
  The source writes both out at each place of use.
\<close>

definition select_open_task :: "db \<Rightarrow> int \<Rightarrow> RestockTask option" where
  "select_open_task d k =
     find (\<lambda>t. RestockTask.tray_id t = k \<and> RestockTask.status t = rs_open) (restock_tasks d)"

definition select_unresolved :: "db \<Rightarrow> int \<Rightarrow> RestockTaskItem list" where
  "select_unresolved d k =
     filter (\<lambda>r. RestockTaskItem.task_id r = k \<and> \<not> RestockTaskItem.restocked r)
       (restock_task_items d)"

section \<open>Helper functions\<close>

text \<open>
  Every \<^verbatim>\<open>raise HTTPException(status, detail)\<close> of the lifecycle endpoints is a value of
  \<open>error\<close>: the status code and what the detail string says (the identifiers the string
  is formatted from are kept as arguments).
\<close>

datatype detail =
    tray_not_found int
  | must_specify_item_needing_restock
  | item_not_found_in_tray int int
  | must_specify_item_to_restock
  | tray_already_exists string
  | sku_already_exists string

datatype error = HTTPException int detail

definition get_tray_or_404 :: "db \<Rightarrow> int \<Rightarrow> error + Tray" where
  "get_tray_or_404 d tray_id' =
     (case get_Tray d tray_id' of
        None \<Rightarrow> Inl (HTTPException 404 (tray_not_found tray_id'))
      | Some tray \<Rightarrow> Inr tray)"

text \<open>
  The clock reading \<open>now\<close> is an argument: it is the value \<^verbatim>\<open>datetime.now\<close> returns
  during the request, and the default of \<^verbatim>\<open>created_at\<close> and \<^verbatim>\<open>updated_at\<close>.
  A parameter that has the name of a field is written with a prime (\<open>tray_id'\<close>).
\<close>

definition ensure_open_restock_task :: "db \<Rightarrow> datetime \<Rightarrow> int \<Rightarrow> RestockTask \<times> db" where
  "ensure_open_restock_task d now tray_id' =
     (case select_open_task d tray_id' of
        Some task \<Rightarrow> (task, d)
      | None \<Rightarrow>
          (let task = \<lparr>RestockTask.id = next_id (map RestockTask.id (restock_tasks d)),
                       RestockTask.tray_id = tray_id',
                       RestockTask.status = rs_open,
                       created_at = now, updated_at = now\<rparr>
           in (task, d\<lparr>restock_tasks := restock_tasks d @ [task]\<rparr>)))"

definition close_restock_task_if_empty :: "db \<Rightarrow> datetime \<Rightarrow> int \<Rightarrow> db" where
  "close_restock_task_if_empty d now tray_id' =
     (case select_open_task d tray_id' of
        None \<Rightarrow> d
      | Some task \<Rightarrow>
          (let open_items = select_unresolved d (RestockTask.id task)
           in if open_items = []
              then save_RestockTask d (task\<lparr>RestockTask.status := rs_closed, updated_at := now\<rparr>)
              else d))"

text \<open>
  \<^verbatim>\<open>TrayOut\<close> copies every field of the tray and, for each item of the tray, every field
  of the item but \<^verbatim>\<open>tray_id\<close>: the tray and its items stand for it.
\<close>

type_synonym TrayOut = "Tray \<times> TrayItem list"

definition tray_to_out :: "db \<Rightarrow> Tray \<Rightarrow> TrayOut" where
  "tray_to_out d tray =
     (tray, filter (\<lambda>i. TrayItem.tray_id i = Tray.id tray) (tray_items d))"

section \<open>Request schemas\<close>

text \<open>
  The Pydantic request bodies, with the source's field names. FastAPI rejects a body that
  breaks a \<^verbatim>\<open>Field\<close> constraint before the endpoint runs; the \<open>valid_\<close> predicates are
  those constraints. \<^verbatim>\<open>new_priority\<close> is the literal \<^verbatim>\<open>"partial"\<close> or an integer.
\<close>

record GPS =
  lat :: real
  lng :: real

definition valid_GPS :: "GPS \<Rightarrow> bool" where
  "valid_GPS g = (-90 \<le> lat g \<and> lat g \<le> 90 \<and> -180 \<le> lng g \<and> lng g \<le> 180)"

definition max_length :: "nat \<Rightarrow> string option \<Rightarrow> bool" where
  "max_length n s = (case s of None \<Rightarrow> True | Some x \<Rightarrow> length x \<le> n)"

definition ge0 :: "int option \<Rightarrow> bool" where
  "ge0 q = (case q of None \<Rightarrow> True | Some x \<Rightarrow> 0 \<le> x)"

record CreateTrayIn =
  name :: string

definition valid_CreateTrayIn :: "CreateTrayIn \<Rightarrow> bool" where
  "valid_CreateTrayIn p =
     (1 \<le> length (CreateTrayIn.name p) \<and> length (CreateTrayIn.name p) \<le> 100)"

record CreateTrayItemIn =
  tray_id :: int
  sku :: string
  name :: string
  is_critical :: bool
  qty_expected :: "int option"
  qty_on_hand :: "int option"

definition valid_CreateTrayItemIn :: "CreateTrayItemIn \<Rightarrow> bool" where
  "valid_CreateTrayItemIn p =
     (1 \<le> length (CreateTrayItemIn.sku p) \<and> length (CreateTrayItemIn.sku p) \<le> 50
      \<and> 1 \<le> length (CreateTrayItemIn.name p) \<and> length (CreateTrayItemIn.name p) \<le> 200
      \<and> ge0 (CreateTrayItemIn.qty_expected p) \<and> ge0 (CreateTrayItemIn.qty_on_hand p))"

record DropoffRequest =
  tray_id :: int
  user_id :: string
  gps :: GPS
  location_type :: LocationType
  location_name :: "string option"
  case_id :: "string option"
  "notes" :: "string option"
  device_meta :: "string option"

definition valid_DropoffRequest :: "DropoffRequest \<Rightarrow> bool" where
  "valid_DropoffRequest p =
     (valid_GPS (DropoffRequest.gps p) \<and> max_length 500 (DropoffRequest.notes p))"

record InventoryCheckItem =
  item_id :: int
  reason :: "string option"
  qty_missing :: "int option"
  qty_used :: "int option"

definition valid_InventoryCheckItem :: "InventoryCheckItem \<Rightarrow> bool" where
  "valid_InventoryCheckItem it =
     (max_length 200 (InventoryCheckItem.reason it)
      \<and> ge0 (InventoryCheckItem.qty_missing it) \<and> ge0 (qty_used it))"

record InventoryCheckRequest =
  tray_id :: int
  user_id :: string
  gps :: GPS
  items :: "InventoryCheckItem list"
  has_assigned_case_within_72h :: "bool option"
  case_count_per_week :: "real option"
  tray_avg_weekly :: "real option"
  any_critical_missing :: "bool option"
  user_priority_numeric :: "int option"
  user_priority_partial :: "bool option"
  location_type :: "LocationType option"
  location_name :: "string option"

definition valid_InventoryCheckRequest :: "InventoryCheckRequest \<Rightarrow> bool" where
  "valid_InventoryCheckRequest p =
     (valid_GPS (InventoryCheckRequest.gps p)
      \<and> list_all valid_InventoryCheckItem (InventoryCheckRequest.items p)
      \<and> (case case_count_per_week p of None \<Rightarrow> True | Some x \<Rightarrow> 0 \<le> x)
      \<and> (case tray_avg_weekly p of None \<Rightarrow> True | Some x \<Rightarrow> 0 \<le> x)
      \<and> (case user_priority_numeric p of None \<Rightarrow> True | Some n \<Rightarrow> 1 \<le> n \<and> n \<le> 3))"

record RestockFullRequest =
  tray_id :: int
  user_id :: string
  gps :: GPS
  location_type :: "LocationType option"
  location_name :: "string option"
  device_meta :: "string option"
  "notes" :: "string option"

definition valid_RestockFullRequest :: "RestockFullRequest \<Rightarrow> bool" where
  "valid_RestockFullRequest p =
     (valid_GPS (RestockFullRequest.gps p) \<and> max_length 500 (RestockFullRequest.notes p))"

record RestockPartialItem =
  item_id :: int
  qty_restocked :: "int option"

definition valid_RestockPartialItem :: "RestockPartialItem \<Rightarrow> bool" where
  "valid_RestockPartialItem it = ge0 (qty_restocked it)"

datatype new_priority = literal_partial | literal_int int

record RestockPartialRequest =
  tray_id :: int
  user_id :: string
  gps :: GPS
  items :: "RestockPartialItem list"
  new_priority :: new_priority
  location_type :: "LocationType option"
  location_name :: "string option"
  device_meta :: "string option"
  "notes" :: "string option"

definition valid_RestockPartialRequest :: "RestockPartialRequest \<Rightarrow> bool" where
  "valid_RestockPartialRequest p =
     (valid_GPS (RestockPartialRequest.gps p)
      \<and> list_all valid_RestockPartialItem (RestockPartialRequest.items p)
      \<and> (case new_priority p of literal_partial \<Rightarrow> True
          | literal_int n \<Rightarrow> n = 1 \<or> n = 2 \<or> n = 3)
      \<and> max_length 500 (RestockPartialRequest.notes p))"

section \<open>Endpoints\<close>

text \<open>
  An endpoint takes the database before the request and returns its response together with
  the database after the request. The body runs in \<^verbatim>\<open>with Session(engine) as session\<close>:
  what the session changed is written to the database by \<^verbatim>\<open>session.commit()\<close>, and a
  \<^verbatim>\<open>raise\<close> leaves the block without a commit, so the changes made so far are
  discarded and the database after the request is the database before it. The session
  flushes before each query, so a query sees the rows the request added or changed earlier.

  A loop that changes every row of a query's result is a \<open>map\<close> over the table that changes
  the rows the query selects.
\<close>

definition or_zero :: "int option \<Rightarrow> int" where
  "or_zero q = (case q of None \<Rightarrow> 0 | Some x \<Rightarrow> x)"

definition create_tray :: "db \<Rightarrow> CreateTrayIn \<Rightarrow> (error + TrayOut) \<times> db" where
  "create_tray d payload =
     (case find (\<lambda>t. Tray.name t = CreateTrayIn.name payload) (trays d) of
        Some existing \<Rightarrow>
          (Inl (HTTPException 400 (tray_already_exists (CreateTrayIn.name payload))), d)
      | None \<Rightarrow>
          (let tray0 = \<lparr>Tray.id = next_id (map Tray.id (trays d)),
                        Tray.name = CreateTrayIn.name payload,
                        Tray.status = ready,
                        priority_numeric = None, priority_partial = False,
                        color = COLOR_GREEN,
                        last_seen_lat = None, last_seen_lng = None, last_seen_at = None,
                        last_location_type = None, last_location_name = None,
                        linked_case_id = None\<rparr>;
               tray = tray0\<lparr>color := map_color (priority_numeric tray0) (priority_partial tray0)
                                       (Tray.status tray0 = ready)\<rparr>;
               d' = d\<lparr>trays := trays d @ [tray]\<rparr>
           in (Inr (tray_to_out d' tray), d')))"

definition create_tray_item :: "db \<Rightarrow> CreateTrayItemIn \<Rightarrow> (error + TrayOut) \<times> db" where
  "create_tray_item d payload =
     (case get_tray_or_404 d (CreateTrayItemIn.tray_id payload) of
        Inl e \<Rightarrow> (Inl e, d)
      | Inr tray \<Rightarrow>
          (case find (\<lambda>i. TrayItem.tray_id i = CreateTrayItemIn.tray_id payload
                            \<and> TrayItem.sku i = CreateTrayItemIn.sku payload) (tray_items d) of
             Some existing \<Rightarrow>
               (Inl (HTTPException 400 (sku_already_exists (CreateTrayItemIn.sku payload))), d)
           | None \<Rightarrow>
               (let item = \<lparr>TrayItem.id = next_id (map TrayItem.id (tray_items d)),
                            TrayItem.tray_id = CreateTrayItemIn.tray_id payload,
                            TrayItem.sku = CreateTrayItemIn.sku payload,
                            TrayItem.name = CreateTrayItemIn.name payload,
                            TrayItem.is_critical = CreateTrayItemIn.is_critical payload,
                            TrayItem.qty_expected = CreateTrayItemIn.qty_expected payload,
                            TrayItem.qty_on_hand = CreateTrayItemIn.qty_on_hand payload\<rparr>;
                    d' = d\<lparr>tray_items := tray_items d @ [item]\<rparr>
                in (Inr (tray_to_out d' tray), d'))))"

text \<open>
  \<^verbatim>\<open>log_dropoff\<close> leaves its \<^verbatim>\<open>with\<close> block after building the event and goes on with
  the closed session, which takes the objects back and commits them. It answers with the
  key of the event.
\<close>

definition log_dropoff :: "db \<Rightarrow> datetime \<Rightarrow> DropoffRequest \<Rightarrow> (error + int) \<times> db" where
  "log_dropoff d now payload =
     (case get_tray_or_404 d (DropoffRequest.tray_id payload) of
        Inl e \<Rightarrow> (Inl e, d)
      | Inr tray \<Rightarrow>
          (let evt = \<lparr>Event.id = next_id (map Event.id (events d)),
                       Event.tray_id = Tray.id tray,
                       Event.user_id = DropoffRequest.user_id payload,
                       event_type = ''dropoff'',
                       timestamp = now,
                       gps_lat = Some (lat (DropoffRequest.gps payload)),
                       gps_lng = Some (lng (DropoffRequest.gps payload)),
                       Event.device_meta = DropoffRequest.device_meta payload,
                       Event.location_type = Some (DropoffRequest.location_type payload),
                       Event.case_id = DropoffRequest.case_id payload,
                       Event.notes = DropoffRequest.notes payload,
                       payload_data = None\<rparr>;
               d1 = d\<lparr>events := events d @ [evt]\<rparr>;
               tray1 = tray\<lparr>Tray.status := in_location,
                         last_seen_lat := Some (lat (DropoffRequest.gps payload)),
                         last_seen_lng := Some (lng (DropoffRequest.gps payload)),
                         last_seen_at := Some (timestamp evt),
                         last_location_type := Some (DropoffRequest.location_type payload),
                         last_location_name := DropoffRequest.location_name payload\<rparr>;
               tray2 = (case DropoffRequest.case_id payload of
                          None \<Rightarrow> tray1
                        | Some c \<Rightarrow> if c = [] then tray1 else tray1\<lparr>linked_case_id := Some c\<rparr>);
               tray3 = tray2\<lparr>color := map_color (priority_numeric tray2) (priority_partial tray2)
                                        (Tray.status tray2 = ready)\<rparr>;
               d2 = save_Tray d1 tray3
           in (Inr (Event.id evt), d2)))"

text \<open>
  The loop over \<^verbatim>\<open>payload.items\<close> of \<^verbatim>\<open>inventory_check\<close>. Its body has two parts,
  each a definition of its own: \<open>inventory_check_quantity\<close> takes the used quantity off
  the item, and \<open>inventory_check_flag\<close> looks for an unresolved row of the task for the
  item and updates it, or adds a row. The loop raises at the first item that is not in the
  table or belongs to another tray; before that it has changed the quantity and the task
  rows of the items it passed.
\<close>

definition inventory_check_quantity :: "db \<Rightarrow> TrayItem \<Rightarrow> InventoryCheckItem \<Rightarrow> db" where
  "inventory_check_quantity d item it =
     (case qty_used it of
        None \<Rightarrow> d
      | Some used \<Rightarrow>
          if used > 0
          then (let current_qty = or_zero (TrayItem.qty_on_hand item)
                in save_TrayItem d
                     (item\<lparr>TrayItem.qty_on_hand := Some (max 0 (current_qty - used))\<rparr>))
          else d)"

definition inventory_check_flag :: "db \<Rightarrow> RestockTask \<Rightarrow> InventoryCheckItem \<Rightarrow> db" where
  "inventory_check_flag d task it =
     (let existing = find (\<lambda>r. RestockTaskItem.task_id r = RestockTask.id task
                               \<and> RestockTaskItem.item_id r = InventoryCheckItem.item_id it
                               \<and> \<not> restocked r) (restock_task_items d)
      in case existing of
           None \<Rightarrow>
             d\<lparr>restock_task_items := restock_task_items d @
                  [\<lparr>RestockTaskItem.id =
                       next_id (map RestockTaskItem.id (restock_task_items d)),
                     task_id = RestockTask.id task,
                     RestockTaskItem.item_id = InventoryCheckItem.item_id it,
                     RestockTaskItem.qty_missing = InventoryCheckItem.qty_missing it,
                     RestockTaskItem.reason = InventoryCheckItem.reason it,
                     restocked = False,
                     restocked_at = None, restocked_by = None\<rparr>]\<rparr>
         | Some ex \<Rightarrow>
             (let ex1 = (case InventoryCheckItem.reason it of
                           None \<Rightarrow> ex
                         | Some x \<Rightarrow> ex\<lparr>RestockTaskItem.reason := Some x\<rparr>);
                  ex2 = (case InventoryCheckItem.qty_missing it of
                           None \<Rightarrow> ex1
                         | Some q \<Rightarrow> ex1\<lparr>RestockTaskItem.qty_missing := Some q\<rparr>)
              in save_RestockTaskItem d ex2))"

fun inventory_check_items ::
  "db \<Rightarrow> Tray \<Rightarrow> RestockTask \<Rightarrow> InventoryCheckItem list \<Rightarrow> error + db" where
  "inventory_check_items d tray task [] = Inr d"
| "inventory_check_items d tray task (it # rest) =
     (case get_TrayItem d (InventoryCheckItem.item_id it) of
        None \<Rightarrow>
          Inl (HTTPException 400
                 (item_not_found_in_tray (InventoryCheckItem.item_id it) (Tray.id tray)))
      | Some item \<Rightarrow>
          if TrayItem.tray_id item \<noteq> Tray.id tray
          then Inl (HTTPException 400
                      (item_not_found_in_tray (InventoryCheckItem.item_id it) (Tray.id tray)))
          else inventory_check_items
                 (inventory_check_flag (inventory_check_quantity d item it) task it)
                 tray task rest)"

definition inventory_check ::
  "db \<Rightarrow> datetime \<Rightarrow> InventoryCheckRequest \<Rightarrow> (error + TrayOut) \<times> db" where
  "inventory_check d now payload =
     (case get_tray_or_404 d (InventoryCheckRequest.tray_id payload) of
        Inl e \<Rightarrow> (Inl e, d)
      | Inr tray \<Rightarrow>
          if InventoryCheckRequest.items payload = []
          then (Inl (HTTPException 400 must_specify_item_needing_restock), d)
          else
            (let (task, d1) = ensure_open_restock_task d now (Tray.id tray)
             in case inventory_check_items d1 tray task (InventoryCheckRequest.items payload) of
                  Inl e \<Rightarrow> (Inl e, d)
                | Inr d2 \<Rightarrow>
                    (let evt = \<lparr>Event.id = next_id (map Event.id (events d2)),
                                 Event.tray_id = Tray.id tray,
                                 Event.user_id = InventoryCheckRequest.user_id payload,
                                 event_type = ''inventory_check'',
                                 timestamp = now,
                                 gps_lat = Some (lat (InventoryCheckRequest.gps payload)),
                                 gps_lng = Some (lng (InventoryCheckRequest.gps payload)),
                                 Event.device_meta = None,
                                 Event.location_type = None,
                                 Event.case_id = None,
                                 Event.notes = None,
                                 payload_data = Some (items_flagged
                                   (map InventoryCheckItem.item_id
                                      (InventoryCheckRequest.items payload)))\<rparr>;
                         d3 = d2\<lparr>events := events d2 @ [evt]\<rparr>;
                         tray1 = tray\<lparr>Tray.status := needs_restock,
                                   last_seen_lat := Some (lat (InventoryCheckRequest.gps payload)),
                                   last_seen_lng := Some (lng (InventoryCheckRequest.gps payload)),
                                   last_seen_at := Some now\<rparr>;
                         auto_suggest = auto_escalation_suggestion
                           (case has_assigned_case_within_72h payload of None \<Rightarrow> False | Some b \<Rightarrow> b)
                           (case case_count_per_week payload of None \<Rightarrow> 0 | Some x \<Rightarrow> x)
                           (case tray_avg_weekly payload of None \<Rightarrow> 0 | Some x \<Rightarrow> x)
                           (case any_critical_missing payload of None \<Rightarrow> False | Some b \<Rightarrow> b);
                         new_num = (case user_priority_numeric payload of
                                      Some n \<Rightarrow> Some n | None \<Rightarrow> auto_suggest);
                         new_partial = (case user_priority_partial payload of
                                          Some b \<Rightarrow> b | None \<Rightarrow> False);
                         (num, part) = apply_priority_non_downgrade
                           (priority_numeric tray1) (priority_partial tray1)
                           new_num (Some new_partial);
                         tray2 = tray1\<lparr>priority_numeric := num, priority_partial := part\<rparr>;
                         tray3 = tray2\<lparr>color := map_color (priority_numeric tray2)
                                   (priority_partial tray2) (Tray.status tray2 = ready)\<rparr>;
                         tray4 = (case InventoryCheckRequest.location_type payload of
                                    None \<Rightarrow> tray3
                                  | Some t \<Rightarrow>
                                      tray3\<lparr>last_location_type := Some t,
                                        last_location_name :=
                                          InventoryCheckRequest.location_name payload\<rparr>);
                         d4 = save_RestockTask (save_Tray d3 tray4)
                                (task\<lparr>updated_at := now\<rparr>)
                     in (Inr (tray_to_out d4 tray4), d4))))"

definition restock_full ::
  "db \<Rightarrow> datetime \<Rightarrow> RestockFullRequest \<Rightarrow> (error + TrayOut) \<times> db" where
  "restock_full d now payload =
     (case get_tray_or_404 d (RestockFullRequest.tray_id payload) of
        Inl e \<Rightarrow> (Inl e, d)
      | Inr tray \<Rightarrow>
          (let d1 = d\<lparr>tray_items :=
                      map (\<lambda>item. if TrayItem.tray_id item = Tray.id tray
                                   then (case TrayItem.qty_expected item of
                                           None \<Rightarrow> item
                                         | Some e \<Rightarrow> item\<lparr>TrayItem.qty_on_hand := Some e\<rparr>)
                                   else item) (tray_items d)\<rparr>;
               d2 = (case select_open_task d1 (Tray.id tray) of
                       None \<Rightarrow> d1
                     | Some task \<Rightarrow>
                         save_RestockTask
                           (d1\<lparr>restock_task_items :=
                                 map (\<lambda>oi. if RestockTaskItem.task_id oi = RestockTask.id task
                                                \<and> \<not> restocked oi
                                            then oi\<lparr>restocked := True,
                                                   restocked_at := Some now,
                                                   restocked_by :=
                                                     Some (RestockFullRequest.user_id payload)\<rparr>
                                            else oi) (restock_task_items d1)\<rparr>)
                           (task\<lparr>RestockTask.status := rs_closed, updated_at := now\<rparr>));
               evt = \<lparr>Event.id = next_id (map Event.id (events d2)),
                       Event.tray_id = Tray.id tray,
                       Event.user_id = RestockFullRequest.user_id payload,
                       event_type = ''restock_full'',
                       timestamp = now,
                       gps_lat = Some (lat (RestockFullRequest.gps payload)),
                       gps_lng = Some (lng (RestockFullRequest.gps payload)),
                       Event.device_meta = RestockFullRequest.device_meta payload,
                       Event.location_type = None,
                       Event.case_id = None,
                       Event.notes = RestockFullRequest.notes payload,
                       payload_data = None\<rparr>;
               d3 = d2\<lparr>events := events d2 @ [evt]\<rparr>;
               tray1 = tray\<lparr>Tray.status := ready, priority_numeric := None,
                         priority_partial := False\<rparr>;
               tray2 = tray1\<lparr>color := map_color (priority_numeric tray1)
                         (priority_partial tray1) True\<rparr>;
               tray3 = (case RestockFullRequest.location_type payload of
                          None \<Rightarrow> tray2
                        | Some t \<Rightarrow>
                            tray2\<lparr>last_location_type := Some t,
                              last_location_name := RestockFullRequest.location_name payload,
                              last_seen_at := Some now\<rparr>);
               d4 = save_Tray d3 tray3
           in (Inr (tray_to_out d4 tray3), d4)))"

text \<open>
  The first loop over \<^verbatim>\<open>payload.items\<close> of \<^verbatim>\<open>restock_partial\<close>, which adds the restocked
  quantities; \<open>restock_partial_quantity\<close> is its body. An item that is not in the table
  or belongs to another tray is passed over.
\<close>

definition restock_partial_quantity :: "db \<Rightarrow> Tray \<Rightarrow> RestockPartialItem \<Rightarrow> db" where
  "restock_partial_quantity d tray item_payload =
     (case get_TrayItem d (RestockPartialItem.item_id item_payload) of
        None \<Rightarrow> d
      | Some item \<Rightarrow>
          if TrayItem.tray_id item = Tray.id tray
          then (case qty_restocked item_payload of
                  None \<Rightarrow> d
                | Some q \<Rightarrow>
                    if q > 0
                    then (let current_qty = or_zero (TrayItem.qty_on_hand item)
                          in save_TrayItem d
                               (item\<lparr>TrayItem.qty_on_hand :=
                                  Some (case TrayItem.qty_expected item of
                                          Some e \<Rightarrow> min (current_qty + q) e
                                        | None \<Rightarrow> current_qty + q)\<rparr>))
                    else d)
          else d)"

fun restock_partial_quantities :: "db \<Rightarrow> Tray \<Rightarrow> RestockPartialItem list \<Rightarrow> db" where
  "restock_partial_quantities d tray [] = d"
| "restock_partial_quantities d tray (item_payload # rest) =
     restock_partial_quantities (restock_partial_quantity d tray item_payload) tray rest"

text \<open>
  \<^verbatim>\<open>by_id\<close> is the dictionary \<^verbatim>\<open>{p.item_id: p for p in payload.items}\<close>: a later entry
  of the list replaces an earlier one with the same key. \<open>restock_partial_resolve\<close> is the
  body of the second loop, over the unresolved rows of the task: a row whose item is in
  \<^verbatim>\<open>by_id\<close> is marked restocked. \<^verbatim>\<open>open_items\<close> is read before the quantity loop, which
  does not touch the task rows. \<^verbatim>\<open>close_restock_task_if_empty\<close> commits what the session
  holds; nothing raises after it.
\<close>

definition restock_partial_resolve ::
  "(int \<rightharpoonup> RestockPartialItem) \<Rightarrow> datetime \<Rightarrow> string \<Rightarrow> RestockTaskItem \<Rightarrow> RestockTaskItem" where
  "restock_partial_resolve by_id now user oi =
     (case by_id (RestockTaskItem.item_id oi) of
        None \<Rightarrow> oi
      | Some sel \<Rightarrow>
          (let oi1 = oi\<lparr>restocked := True, restocked_at := Some now, restocked_by := Some user\<rparr>
           in case qty_restocked sel of
                None \<Rightarrow> oi1
              | Some q \<Rightarrow>
                  oi1\<lparr>RestockTaskItem.qty_missing :=
                    Some (max 0 (or_zero (RestockTaskItem.qty_missing oi) - q))\<rparr>))"

definition restock_partial ::
  "db \<Rightarrow> datetime \<Rightarrow> RestockPartialRequest \<Rightarrow> (error + TrayOut) \<times> db" where
  "restock_partial d now payload =
     (case get_tray_or_404 d (RestockPartialRequest.tray_id payload) of
        Inl e \<Rightarrow> (Inl e, d)
      | Inr tray \<Rightarrow>
          if RestockPartialRequest.items payload = []
          then (Inl (HTTPException 400 must_specify_item_to_restock), d)
          else
            (let (task, d1) = ensure_open_restock_task d now (Tray.id tray);
                 by_id = fold (\<lambda>p m. m(RestockPartialItem.item_id p \<mapsto> p))
                           (RestockPartialRequest.items payload) Map.empty;
                 d2 = restock_partial_quantities d1 tray (RestockPartialRequest.items payload);
                 d3 = d2\<lparr>restock_task_items :=
                        map (\<lambda>oi. if RestockTaskItem.task_id oi = RestockTask.id task
                                       \<and> \<not> restocked oi
                                   then restock_partial_resolve by_id now
                                          (RestockPartialRequest.user_id payload) oi
                                   else oi) (restock_task_items d2)\<rparr>;
                 remaining_open = select_unresolved d3 (RestockTask.id task);
                 evt = \<lparr>Event.id = next_id (map Event.id (events d3)),
                         Event.tray_id = Tray.id tray,
                         Event.user_id = RestockPartialRequest.user_id payload,
                         event_type = ''restock_partial'',
                         timestamp = now,
                         gps_lat = Some (lat (RestockPartialRequest.gps payload)),
                         gps_lng = Some (lng (RestockPartialRequest.gps payload)),
                         Event.device_meta = RestockPartialRequest.device_meta payload,
                         Event.location_type = None,
                         Event.case_id = None,
                         Event.notes = RestockPartialRequest.notes payload,
                         payload_data = Some (restocked_items
                           (map RestockPartialItem.item_id
                              (RestockPartialRequest.items payload)))\<rparr>;
                 d4 = d3\<lparr>events := events d3 @ [evt]\<rparr>;
                 tray1 = tray\<lparr>Tray.status :=
                           (if remaining_open \<noteq> [] then needs_restock else ready)\<rparr>;
                 (new_num, new_partial) =
                   (case new_priority payload of
                      literal_partial \<Rightarrow> (None, if remaining_open \<noteq> [] then True else False)
                    | literal_int n \<Rightarrow> (Some n, False));
                 tray2 = tray1\<lparr>priority_numeric := new_num, priority_partial := new_partial\<rparr>;
                 tray3 = tray2\<lparr>color := map_color (priority_numeric tray2)
                           (priority_partial tray2) (Tray.status tray2 = ready)\<rparr>;
                 tray4 = (case RestockPartialRequest.location_type payload of
                            None \<Rightarrow> tray3
                          | Some t \<Rightarrow>
                              tray3\<lparr>last_location_type := Some t,
                                last_location_name := RestockPartialRequest.location_name payload,
                                last_seen_at := Some now\<rparr>);
                 d5 = close_restock_task_if_empty d4 now (Tray.id tray);
                 d6 = save_Tray d5 tray4
             in (Inr (tray_to_out d6 tray4), d6)))"

section \<open>Sequences of requests\<close>

text \<open>
  The requests that write to the five tables, and the database after a sequence of them,
  each with the clock reading of its moment.
\<close>

datatype request =
    Create_tray CreateTrayIn
  | Create_tray_item CreateTrayItemIn
  | Log_dropoff DropoffRequest
  | Inventory_check InventoryCheckRequest
  | Restock_full RestockFullRequest
  | Restock_partial RestockPartialRequest

fun valid_request :: "request \<Rightarrow> bool" where
  "valid_request (Create_tray p) = valid_CreateTrayIn p"
| "valid_request (Create_tray_item p) = valid_CreateTrayItemIn p"
| "valid_request (Log_dropoff p) = valid_DropoffRequest p"
| "valid_request (Inventory_check p) = valid_InventoryCheckRequest p"
| "valid_request (Restock_full p) = valid_RestockFullRequest p"
| "valid_request (Restock_partial p) = valid_RestockPartialRequest p"

fun handle :: "db \<Rightarrow> datetime \<Rightarrow> request \<Rightarrow> db" where
  "handle d now (Create_tray p) = snd (create_tray d p)"
| "handle d now (Create_tray_item p) = snd (create_tray_item d p)"
| "handle d now (Log_dropoff p) = snd (log_dropoff d now p)"
| "handle d now (Inventory_check p) = snd (inventory_check d now p)"
| "handle d now (Restock_full p) = snd (restock_full d now p)"
| "handle d now (Restock_partial p) = snd (restock_partial d now p)"

fun run :: "db \<Rightarrow> (datetime \<times> request) list \<Rightarrow> db" where
  "run d [] = d"
| "run d ((now, r) # rs) = run (handle d now r) rs"

definition valid_trace :: "(datetime \<times> request) list \<Rightarrow> bool" where
  "valid_trace rs = list_all (\<lambda>(now, r). valid_request r) rs"

section \<open>Predicates on the database\<close>

text \<open>
  The open tasks of a tray, the tasks that have an unresolved row, and the invariant of the
  task tables: primary keys are distinct, a tray has at most one open task, and a task is
  open exactly when one of its rows is unresolved.
\<close>

definition open_tasks :: "db \<Rightarrow> int \<Rightarrow> RestockTask list" where
  "open_tasks d k =
     filter (\<lambda>t. RestockTask.tray_id t = k \<and> RestockTask.status t = rs_open) (restock_tasks d)"

definition unresolved_task_ids :: "db \<Rightarrow> int set" where
  "unresolved_task_ids d =
     RestockTaskItem.task_id ` {r \<in> set (restock_task_items d). \<not> restocked r}"

definition lifecycle_inv :: "db \<Rightarrow> bool" where
  "lifecycle_inv d =
     (distinct (map RestockTask.id (restock_tasks d))
      \<and> distinct (map RestockTaskItem.id (restock_task_items d))
      \<and> (\<forall>k. length (open_tasks d k) \<le> 1)
      \<and> (\<forall>t\<in>set (restock_tasks d).
            RestockTask.status t = rs_open \<longleftrightarrow> RestockTask.id t \<in> unresolved_task_ids d))"

text \<open>Every row of a task belongs to a task of the table.\<close>

definition rows_refer_to_tasks :: "db \<Rightarrow> bool" where
  "rows_refer_to_tasks d =
     (\<forall>r\<in>set (restock_task_items d).
        RestockTaskItem.task_id r \<in> RestockTask.id ` set (restock_tasks d))"

text \<open>No quantity of an item is negative.\<close>

definition nonneg_quantities :: "db \<Rightarrow> bool" where
  "nonneg_quantities d =
     (\<forall>i\<in>set (tray_items d). ge0 (TrayItem.qty_on_hand i) \<and> ge0 (TrayItem.qty_expected i))"

section \<open>A concrete scenario\<close>

text \<open>
  The scenario of the specification: a tray with item A (expected 10, on hand 10) and item
  B (expected 5, on hand 5); an inventory check that reports 4 of A used and B missing; a
  partial restock of 6 of A with the literal \<^verbatim>\<open>"partial"\<close>; an inventory check with the
  priority hint 2; a full restock. A second scenario has two trays, with item 1 in tray 1
  and item 2 (3 on hand) in tray 2; a third has an item with more on hand than expected.
\<close>

definition demo_gps :: GPS where
  "demo_gps = \<lparr>lat = 0, lng = 0\<rparr>"

definition demo_tray :: CreateTrayIn where
  "demo_tray = \<lparr>CreateTrayIn.name = ''Spine''\<rparr>"

definition demo_item :: "string \<Rightarrow> int option \<Rightarrow> int option \<Rightarrow> CreateTrayItemIn" where
  "demo_item s e h =
     \<lparr>CreateTrayItemIn.tray_id = 1, CreateTrayItemIn.sku = s, CreateTrayItemIn.name = s,
       CreateTrayItemIn.is_critical = False,
       CreateTrayItemIn.qty_expected = e, CreateTrayItemIn.qty_on_hand = h\<rparr>"

definition demo_flag :: "int \<Rightarrow> int option \<Rightarrow> InventoryCheckItem" where
  "demo_flag k u =
     \<lparr>InventoryCheckItem.item_id = k, InventoryCheckItem.reason = None,
       InventoryCheckItem.qty_missing = None, qty_used = u\<rparr>"

definition demo_check :: "int \<Rightarrow> InventoryCheckItem list \<Rightarrow> int option \<Rightarrow> InventoryCheckRequest" where
  "demo_check k its hint =
     \<lparr>InventoryCheckRequest.tray_id = k, InventoryCheckRequest.user_id = ''rep001'',
       InventoryCheckRequest.gps = demo_gps, InventoryCheckRequest.items = its,
       has_assigned_case_within_72h = None, case_count_per_week = None,
       tray_avg_weekly = None, any_critical_missing = None,
       user_priority_numeric = hint, user_priority_partial = None,
       InventoryCheckRequest.location_type = None,
       InventoryCheckRequest.location_name = None\<rparr>"

definition demo_restocked :: "int \<Rightarrow> int option \<Rightarrow> RestockPartialItem" where
  "demo_restocked k q = \<lparr>RestockPartialItem.item_id = k, qty_restocked = q\<rparr>"

definition demo_partial ::
  "int \<Rightarrow> RestockPartialItem list \<Rightarrow> new_priority \<Rightarrow> RestockPartialRequest" where
  "demo_partial k its np =
     \<lparr>RestockPartialRequest.tray_id = k, RestockPartialRequest.user_id = ''rep001'',
       RestockPartialRequest.gps = demo_gps, RestockPartialRequest.items = its,
       new_priority = np,
       RestockPartialRequest.location_type = None,
       RestockPartialRequest.location_name = None,
       RestockPartialRequest.device_meta = None, RestockPartialRequest.notes = None\<rparr>"

definition demo_full :: "int \<Rightarrow> RestockFullRequest" where
  "demo_full k =
     \<lparr>RestockFullRequest.tray_id = k, RestockFullRequest.user_id = ''rep001'',
       RestockFullRequest.gps = demo_gps,
       RestockFullRequest.location_type = None, RestockFullRequest.location_name = None,
       RestockFullRequest.device_meta = None, RestockFullRequest.notes = None\<rparr>"

definition demo_seed :: "(datetime \<times> request) list" where
  "demo_seed =
     [(1, Create_tray demo_tray),
      (2, Create_tray_item (demo_item ''A'' (Some 10) (Some 10))),
      (3, Create_tray_item (demo_item ''B'' (Some 5) (Some 5)))]"

definition demo_overstocked :: "(datetime \<times> request) list" where
  "demo_overstocked =
     [(1, Create_tray demo_tray),
      (2, Create_tray_item (demo_item ''C'' (Some 5) (Some 10)))]"

definition demo_foreign_item :: CreateTrayItemIn where
  "demo_foreign_item =
     \<lparr>CreateTrayItemIn.tray_id = 2, CreateTrayItemIn.sku = ''X'', CreateTrayItemIn.name = ''X'',
       CreateTrayItemIn.is_critical = False,
       CreateTrayItemIn.qty_expected = Some 10, CreateTrayItemIn.qty_on_hand = Some 3\<rparr>"

definition demo_two_trays :: "(datetime \<times> request) list" where
  "demo_two_trays =
     [(1, Create_tray demo_tray),
      (2, Create_tray \<lparr>CreateTrayIn.name = ''Hip''\<rparr>),
      (3, Create_tray_item (demo_item ''A'' (Some 10) (Some 10))),
      (4, Create_tray_item demo_foreign_item)]"

definition demo_checked :: "(datetime \<times> request) list" where
  "demo_checked =
     demo_seed @ [(4, Inventory_check (demo_check 1 [demo_flag 1 (Some 4), demo_flag 2 None] None))]"

definition demo_partly_restocked :: "(datetime \<times> request) list" where
  "demo_partly_restocked =
     demo_checked @ [(5, Restock_partial (demo_partial 1 [demo_restocked 1 (Some 6)] literal_partial))]"

definition demo_rechecked :: "(datetime \<times> request) list" where
  "demo_rechecked =
     demo_partly_restocked @ [(6, Inventory_check (demo_check 1 [demo_flag 1 None] (Some 2)))]"

definition demo_fully_restocked :: "(datetime \<times> request) list" where
  "demo_fully_restocked = demo_checked @ [(5, Restock_full (demo_full 1))]"

section \<open>Properties of the priority and colour logic\<close>

text \<open>
  C1. The merge adopts the incoming numeric priority only when there is no existing one or
  the incoming one is strictly greater; otherwise the existing one is kept. Hence an existing
  numeric priority \<open>e\<close> yields a numeric priority that is not null and at least \<open>e\<close>, and an
  incoming 2 against an existing 3 keeps 3.
\<close>

theorem apply_priority_non_downgrade_monotone:
  "(fst (apply_priority_non_downgrade existing_numeric existing_partial new_numeric new_partial)
      \<noteq> existing_numeric
    \<longrightarrow> (\<exists>n. new_numeric = Some n
            \<and> fst (apply_priority_non_downgrade existing_numeric existing_partial
                      new_numeric new_partial) = Some n
            \<and> (existing_numeric = None \<or> (\<exists>e. existing_numeric = Some e \<and> e < n))))
   \<and> (\<forall>n. new_numeric = Some n
            \<and> (existing_numeric = None \<or> (\<exists>e. existing_numeric = Some e \<and> e < n))
        \<longrightarrow> fst (apply_priority_non_downgrade existing_numeric existing_partial
                    new_numeric new_partial) = Some n)
   \<and> (\<forall>e. existing_numeric = Some e
        \<longrightarrow> (\<exists>r. fst (apply_priority_non_downgrade existing_numeric existing_partial
                         new_numeric new_partial) = Some r \<and> e \<le> r))
   \<and> fst (apply_priority_non_downgrade (Some 3) existing_partial (Some 2) new_partial) = Some 3"
  by (auto simp: apply_priority_non_downgrade_def Let_def split: option.splits)

theorem apply_priority_non_downgrade_monotone_witness:
  "fst (apply_priority_non_downgrade (Some 1) False (Some 2) None) \<noteq> Some 1
   \<and> fst (apply_priority_non_downgrade (Some 1) False (Some 2) None) = Some 2
   \<and> (\<exists>r. fst (apply_priority_non_downgrade (Some 1) False (Some 2) None) = Some r \<and> 1 \<le> r)"
  using apply_priority_non_downgrade_monotone [of "Some 1" False "Some 2" None]
  by (simp add: apply_priority_non_downgrade_def)

text \<open>
  C2. \<open>map_color\<close> is a total function of its three arguments: green when ready; otherwise
  red, orange or yellow for the numeric priority 1, 2 or 3; otherwise blue when partial;
  otherwise green.
\<close>

theorem map_color_cases:
  "map_color priority_numeric' partial is_ready =
     (if is_ready then COLOR_GREEN
      else if priority_numeric' = Some 1 then COLOR_RED
      else if priority_numeric' = Some 2 then COLOR_ORANGE
      else if priority_numeric' = Some 3 then COLOR_YELLOW
      else if partial then COLOR_BLUE
      else COLOR_GREEN)"
  by (simp add: map_color_def split: option.splits)

section \<open>Facts about the helper functions\<close>


lemma fold_max_ge: "a \<le> fold max xs (a::int) \<and> (\<forall>x\<in>set xs. x \<le> fold max xs a)"
proof (induction xs arbitrary: a)
  case Nil
  show ?case by simp
next
  case (Cons y ys)
  have "max y a \<le> fold max ys (max y a)" using Cons.IH by blast
  moreover have "\<forall>x\<in>set ys. x \<le> fold max ys (max y a)" using Cons.IH by blast
  ultimately show ?case by auto
qed

lemma next_id_fresh: "i \<in> set ids \<Longrightarrow> i < next_id ids"
  using fold_max_ge [of 0 ids] by (auto simp: next_id_def)

lemma next_id_notin: "next_id ids \<notin> set ids"
  using next_id_fresh [of "next_id ids" ids] by auto

lemma find_append:
  "find P (xs @ ys) = (case find P xs of None \<Rightarrow> find P ys | Some x \<Rightarrow> Some x)"
  by (induction xs) auto

lemma select_open_task_Some:
  "select_open_task d k = Some task \<Longrightarrow>
     task \<in> set (restock_tasks d) \<and> RestockTask.tray_id task = k \<and> RestockTask.status task = rs_open"
  by (auto simp: select_open_task_def find_Some_iff)

lemma select_open_task_None:
  "select_open_task d k = None \<longleftrightarrow>
     (\<forall>t\<in>set (restock_tasks d). \<not> (RestockTask.tray_id t = k \<and> RestockTask.status t = rs_open))"
  by (auto simp: select_open_task_def find_None_iff)

lemma ensure_open_cases:
  assumes "ensure_open_restock_task d now k = (task, d1)"
  shows "(select_open_task d k = Some task \<and> d1 = d)
       \<or> (select_open_task d k = None
          \<and> task = \<lparr>RestockTask.id = next_id (map RestockTask.id (restock_tasks d)),
                     RestockTask.tray_id = k, RestockTask.status = rs_open,
                     created_at = now, updated_at = now\<rparr>
          \<and> d1 = d\<lparr>restock_tasks := restock_tasks d @ [task]\<rparr>)"
  using assms by (auto simp: ensure_open_restock_task_def Let_def split: option.splits)

lemma ensure_open_task:
  assumes "ensure_open_restock_task d now k = (task, d1)"
  shows "task \<in> set (restock_tasks d1)" "RestockTask.tray_id task = k"
    "RestockTask.status task = rs_open" "select_open_task d1 k = Some task"
    "trays d1 = trays d" "tray_items d1 = tray_items d"
    "restock_task_items d1 = restock_task_items d" "events d1 = events d"
proof -
  from ensure_open_cases [OF assms] show "task \<in> set (restock_tasks d1)"
    by (auto dest: select_open_task_Some)
  from ensure_open_cases [OF assms] show "RestockTask.tray_id task = k"
    by (auto dest: select_open_task_Some)
  from ensure_open_cases [OF assms] show "RestockTask.status task = rs_open"
    by (auto dest: select_open_task_Some)
  from ensure_open_cases [OF assms] show "select_open_task d1 k = Some task"
    by (auto simp: select_open_task_def find_append split: option.splits)
  from ensure_open_cases [OF assms] show "trays d1 = trays d" by auto
  from ensure_open_cases [OF assms] show "tray_items d1 = tray_items d" by auto
  from ensure_open_cases [OF assms] show "restock_task_items d1 = restock_task_items d" by auto
  from ensure_open_cases [OF assms] show "events d1 = events d" by auto
qed

lemma inventory_check_items_frame:
  "inventory_check_items d tray task its = Inr d' \<Longrightarrow>
     restock_tasks d' = restock_tasks d \<and> trays d' = trays d \<and> events d' = events d"
proof (induction its arbitrary: d)
  case Nil
  then show ?case by simp
next
  case (Cons it rest)
  then show ?case
    by (auto simp: Let_def save_TrayItem_def save_RestockTaskItem_def
               inventory_check_quantity_def inventory_check_flag_def
             split: option.splits if_splits)
qed

lemma restock_partial_quantities_frame:
  "restock_tasks (restock_partial_quantities d tray its) = restock_tasks d
   \<and> trays (restock_partial_quantities d tray its) = trays d
   \<and> events (restock_partial_quantities d tray its) = events d
   \<and> restock_task_items (restock_partial_quantities d tray its) = restock_task_items d"
  by (induction its arbitrary: d)
     (auto simp: Let_def save_TrayItem_def restock_partial_quantity_def
           split: option.splits if_splits)

lemma select_unresolved_Nil:
  "select_unresolved d k = [] \<longleftrightarrow> k \<notin> unresolved_task_ids d"
  by (auto simp: select_unresolved_def unresolved_task_ids_def filter_empty_conv)

lemma length_filter_mono:
  "(\<And>x. x \<in> set xs \<Longrightarrow> Q x \<Longrightarrow> P x) \<Longrightarrow> length (filter Q xs) \<le> length (filter P xs)"
  by (induction xs) auto

lemma distinct_key_eq:
  "distinct (map f xs) \<Longrightarrow> x \<in> set xs \<Longrightarrow> y \<in> set xs \<Longrightarrow> f x = f y \<Longrightarrow> x = y"
  by (meson distinct_map inj_onD)

lemma restock_full_tasks:
  "restock_tasks (snd (restock_full d now p)) =
     (case get_Tray d (RestockFullRequest.tray_id p) of
        None \<Rightarrow> restock_tasks d
      | Some tray \<Rightarrow>
          (case select_open_task d (Tray.id tray) of
             None \<Rightarrow> restock_tasks d
           | Some task \<Rightarrow>
               map (\<lambda>t. if RestockTask.id t = RestockTask.id task
                        then task\<lparr>RestockTask.status := rs_closed, updated_at := now\<rparr> else t)
                 (restock_tasks d)))"
  by (simp add: restock_full_def get_tray_or_404_def Let_def select_open_task_def
        save_RestockTask_def save_Tray_def split: option.splits)

lemma restock_full_task_items:
  "restock_task_items (snd (restock_full d now p)) =
     (case get_Tray d (RestockFullRequest.tray_id p) of
        None \<Rightarrow> restock_task_items d
      | Some tray \<Rightarrow>
          (case select_open_task d (Tray.id tray) of
             None \<Rightarrow> restock_task_items d
           | Some task \<Rightarrow>
               map (\<lambda>oi. if RestockTaskItem.task_id oi = RestockTask.id task \<and> \<not> restocked oi
                         then oi\<lparr>restocked := True, restocked_at := Some now,
                                restocked_by := Some (RestockFullRequest.user_id p)\<rparr>
                         else oi) (restock_task_items d)))"
  by (simp add: restock_full_def get_tray_or_404_def Let_def select_open_task_def
        save_RestockTask_def save_Tray_def split: option.splits)

lemma lifecycle_inv_cong:
  "restock_tasks d' = restock_tasks d \<Longrightarrow> restock_task_items d' = restock_task_items d \<Longrightarrow>
     lifecycle_inv d' = lifecycle_inv d"
  by (simp add: lifecycle_inv_def open_tasks_def unresolved_task_ids_def)

lemma replace_self:
  assumes "distinct (map f xs)" "x \<in> set xs"
  shows "map (\<lambda>z. if f z = f x then x else z) xs = xs"
proof -
  have "\<And>z. z \<in> set xs \<Longrightarrow> (if f z = f x then x else z) = z"
    using assms by (auto dest: distinct_key_eq)
  then show ?thesis by (simp add: map_idI)
qed

lemma lifecycle_inv_transition:
  assumes A1: "distinct (map RestockTask.id (restock_tasks d1))"
    and A3: "\<forall>k. length (open_tasks d1 k) \<le> 1"
    and A4: "task \<in> set (restock_tasks d1)"
    and A5: "\<forall>t\<in>set (restock_tasks d1). RestockTask.id t \<noteq> RestockTask.id task \<longrightarrow>
              (RestockTask.status t = rs_open \<longleftrightarrow> RestockTask.id t \<in> unresolved_task_ids d1)"
    and B1: "restock_tasks d' =
              map (\<lambda>t. if RestockTask.id t = RestockTask.id task then obj else t) (restock_tasks d1)"
    and O1: "RestockTask.id obj = RestockTask.id task"
    and O2: "RestockTask.tray_id obj = RestockTask.tray_id task"
    and O3: "RestockTask.status obj = rs_open \<Longrightarrow> RestockTask.status task = rs_open"
    and B2: "distinct (map RestockTaskItem.id (restock_task_items d'))"
    and B3: "unresolved_task_ids d' - {RestockTask.id task}
               = unresolved_task_ids d1 - {RestockTask.id task}"
    and B4: "RestockTask.status obj = rs_open \<longleftrightarrow> RestockTask.id task \<in> unresolved_task_ids d'"
  shows "lifecycle_inv d'"
proof -
  let ?g = "\<lambda>t. if RestockTask.id t = RestockTask.id task then obj else t"
  have same: "\<And>t. t \<in> set (restock_tasks d1) \<Longrightarrow> RestockTask.id t = RestockTask.id task \<Longrightarrow> t = task"
    using A1 A4 by (auto dest: distinct_key_eq)
  have ids: "map RestockTask.id (restock_tasks d') = map RestockTask.id (restock_tasks d1)"
    using O1 by (simp add: B1)
  have I1: "distinct (map RestockTask.id (restock_tasks d'))"
    using A1 ids by simp
  have I4: "length (open_tasks d' k) \<le> 1" for k
  proof -
    let ?P = "\<lambda>t. RestockTask.tray_id t = k \<and> RestockTask.status t = rs_open"
    have "length (open_tasks d' k) = length (filter (?P \<circ> ?g) (restock_tasks d1))"
      by (simp add: open_tasks_def B1 filter_map)
    also have "\<dots> \<le> length (filter ?P (restock_tasks d1))"
    proof (rule length_filter_mono)
      fix t assume "t \<in> set (restock_tasks d1)" "(?P \<circ> ?g) t"
      then show "?P t" using same [of t] O2 O3 by (auto split: if_splits)
    qed
    also have "\<dots> \<le> 1" using A3 by (simp add: open_tasks_def)
    finally show ?thesis .
  qed
  have I3: "RestockTask.status t' = rs_open \<longleftrightarrow> RestockTask.id t' \<in> unresolved_task_ids d'"
    if "t' \<in> set (restock_tasks d')" for t'
  proof -
    from that obtain t where t: "t \<in> set (restock_tasks d1)" "t' = ?g t"
      by (auto simp: B1)
    show ?thesis
    proof (cases "RestockTask.id t = RestockTask.id task")
      case True
      then show ?thesis using t B4 O1 by simp
    next
      case False
      then have "RestockTask.id t \<in> unresolved_task_ids d' \<longleftrightarrow> RestockTask.id t \<in> unresolved_task_ids d1"
        using B3 by blast
      then show ?thesis using False t A5 by simp
    qed
  qed
  show ?thesis
    unfolding lifecycle_inv_def using I1 B2 I4 I3 by blast
qed

lemma ensure_open_pre:
  assumes inv: "lifecycle_inv d" and e: "ensure_open_restock_task d now k = (task, d1)"
  shows "distinct (map RestockTask.id (restock_tasks d1))"
    and "distinct (map RestockTaskItem.id (restock_task_items d1))"
    and "\<forall>k. length (open_tasks d1 k) \<le> 1"
    and "\<forall>t\<in>set (restock_tasks d1). RestockTask.id t \<noteq> RestockTask.id task \<longrightarrow>
              (RestockTask.status t = rs_open \<longleftrightarrow> RestockTask.id t \<in> unresolved_task_ids d1)"
proof -
  note c = ensure_open_cases [OF e]
  have fresh: "next_id (map RestockTask.id (restock_tasks d)) \<notin> RestockTask.id ` set (restock_tasks d)"
    using next_id_notin [of "map RestockTask.id (restock_tasks d)"] by simp
  show "distinct (map RestockTask.id (restock_tasks d1))"
    using c inv fresh by (auto simp: lifecycle_inv_def)
  show "distinct (map RestockTaskItem.id (restock_task_items d1))"
    using c inv by (auto simp: lifecycle_inv_def)
  show "\<forall>k. length (open_tasks d1 k) \<le> 1"
  proof
    fix k'
    from c show "length (open_tasks d1 k') \<le> 1"
    proof
      assume "select_open_task d k = Some task \<and> d1 = d"
      then show ?thesis using inv by (simp add: lifecycle_inv_def)
    next
      assume n: "select_open_task d k = None
          \<and> task = \<lparr>RestockTask.id = next_id (map RestockTask.id (restock_tasks d)),
                     RestockTask.tray_id = k, RestockTask.status = rs_open,
                     created_at = now, updated_at = now\<rparr>
          \<and> d1 = d\<lparr>restock_tasks := restock_tasks d @ [task]\<rparr>"
      then have none: "open_tasks d k = []"
        by (auto simp: select_open_task_None open_tasks_def filter_empty_conv)
      show ?thesis
      proof (cases "k' = k")
        case True
        then show ?thesis using n none by (simp add: open_tasks_def)
      next
        case False
        then have "open_tasks d1 k' = open_tasks d k'" using n by (simp add: open_tasks_def)
        then show ?thesis using inv by (simp add: lifecycle_inv_def)
      qed
    qed
  qed
  show "\<forall>t\<in>set (restock_tasks d1). RestockTask.id t \<noteq> RestockTask.id task \<longrightarrow>
              (RestockTask.status t = rs_open \<longleftrightarrow> RestockTask.id t \<in> unresolved_task_ids d1)"
    using c inv by (auto simp: lifecycle_inv_def unresolved_task_ids_def)
qed


lemma distinct_map_key:
  "distinct (map f xs) \<Longrightarrow> (\<And>z. z \<in> set xs \<Longrightarrow> f (g z) = f z) \<Longrightarrow>
     distinct (map f (map g xs))"
proof -
  assume d: "distinct (map f xs)" and k: "\<And>z. z \<in> set xs \<Longrightarrow> f (g z) = f z"
  have eq: "map (f \<circ> g) xs = map f xs" using k by (induction xs) auto
  show ?thesis using d by (simp add: eq)
qed

lemma unresolved_append:
  "unresolved_task_ids (d\<lparr>restock_task_items := restock_task_items d @ [r]\<rparr>) =
     unresolved_task_ids d \<union> (if restocked r then {} else {RestockTaskItem.task_id r})"
  by (auto simp: unresolved_task_ids_def)

lemma unresolved_map:
  assumes "\<And>r. r \<in> set rows \<Longrightarrow>
      RestockTaskItem.task_id (g r) = RestockTaskItem.task_id r \<and> restocked (g r) = restocked r"
  shows "RestockTaskItem.task_id ` {r \<in> set (map g rows). \<not> restocked r}
       = RestockTaskItem.task_id ` {r \<in> set rows. \<not> restocked r}"
proof -
  have "{r \<in> set (map g rows). \<not> restocked r} = g ` {z \<in> set rows. \<not> restocked z}"
    using assms by auto
  then have "RestockTaskItem.task_id ` {r \<in> set (map g rows). \<not> restocked r}
       = (RestockTaskItem.task_id \<circ> g) ` {z \<in> set rows. \<not> restocked z}"
    by (simp add: image_comp)
  also have "\<dots> = RestockTaskItem.task_id ` {z \<in> set rows. \<not> restocked z}"
    using assms by (intro image_cong) auto
  finally show ?thesis .
qed

lemma unresolved_save_same:
  assumes "distinct (map RestockTaskItem.id (restock_task_items d))"
    and "ex \<in> set (restock_task_items d)"
    and "RestockTaskItem.id ex' = RestockTaskItem.id ex"
    and "RestockTaskItem.task_id ex' = RestockTaskItem.task_id ex"
    and "restocked ex' = restocked ex"
  shows "unresolved_task_ids (save_RestockTaskItem d ex') = unresolved_task_ids d"
    and "distinct (map RestockTaskItem.id (restock_task_items (save_RestockTaskItem d ex')))"
proof -
  let ?g = "\<lambda>r. if RestockTaskItem.id r = RestockTaskItem.id ex' then ex' else r"
  have same: "\<And>r. r \<in> set (restock_task_items d) \<Longrightarrow>
      RestockTaskItem.task_id (?g r) = RestockTaskItem.task_id r \<and> restocked (?g r) = restocked r"
    using assms by (auto dest: distinct_key_eq)
  have "distinct (map RestockTaskItem.id (map ?g (restock_task_items d)))"
    using assms(1) by (rule distinct_map_key) simp
  then show "distinct (map RestockTaskItem.id (restock_task_items (save_RestockTaskItem d ex')))"
    by (simp add: save_RestockTaskItem_def del: map_map)
  show "unresolved_task_ids (save_RestockTaskItem d ex') = unresolved_task_ids d"
    unfolding unresolved_task_ids_def save_RestockTaskItem_def
    using unresolved_map [of "restock_task_items d" ?g, OF same] by simp
qed

lemma inventory_check_quantity_frame:
  "restock_task_items (inventory_check_quantity d item it) = restock_task_items d
   \<and> restock_tasks (inventory_check_quantity d item it) = restock_tasks d"
  by (simp add: inventory_check_quantity_def save_TrayItem_def Let_def split: option.splits)

lemma unresolved_cong:
  "restock_task_items d' = restock_task_items d \<Longrightarrow> unresolved_task_ids d' = unresolved_task_ids d"
  by (simp add: unresolved_task_ids_def)

lemma inventory_check_flag_rows:
  assumes "distinct (map RestockTaskItem.id (restock_task_items d))"
  shows "distinct (map RestockTaskItem.id (restock_task_items (inventory_check_flag d task it)))"
    and "unresolved_task_ids (inventory_check_flag d task it)
           = unresolved_task_ids d \<union> {RestockTask.id task}"
proof -
  let ?P = "\<lambda>r. RestockTaskItem.task_id r = RestockTask.id task
                \<and> RestockTaskItem.item_id r = InventoryCheckItem.item_id it \<and> \<not> restocked r"
  have "distinct (map RestockTaskItem.id (restock_task_items (inventory_check_flag d task it)))
      \<and> unresolved_task_ids (inventory_check_flag d task it)
           = unresolved_task_ids d \<union> {RestockTask.id task}"
  proof (cases "find ?P (restock_task_items d)")
    case None
    have fresh: "next_id (map RestockTaskItem.id (restock_task_items d))
                   \<notin> RestockTaskItem.id ` set (restock_task_items d)"
      using next_id_notin [of "map RestockTaskItem.id (restock_task_items d)"] by simp
    show ?thesis
      using None assms fresh
      by (simp add: inventory_check_flag_def unresolved_append)
  next
    case (Some ex)
    then have ex: "ex \<in> set (restock_task_items d)" "RestockTaskItem.task_id ex = RestockTask.id task"
      "\<not> restocked ex"
      by (auto simp: find_Some_iff)
    then have mem: "RestockTask.id task \<in> unresolved_task_ids d"
      by (force simp: unresolved_task_ids_def)
    define ex2 where "ex2 =
      (let ex1 = (case InventoryCheckItem.reason it of
                           None \<Rightarrow> ex
                         | Some x \<Rightarrow> ex\<lparr>RestockTaskItem.reason := Some x\<rparr>)
       in (case InventoryCheckItem.qty_missing it of
                           None \<Rightarrow> ex1
                         | Some q \<Rightarrow> ex1\<lparr>RestockTaskItem.qty_missing := Some q\<rparr>))"
    have k: "RestockTaskItem.id ex2 = RestockTaskItem.id ex"
      "RestockTaskItem.task_id ex2 = RestockTaskItem.task_id ex" "restocked ex2 = restocked ex"
      by (auto simp: ex2_def Let_def split: option.splits)
    have f: "inventory_check_flag d task it = save_RestockTaskItem d ex2"
      using Some by (simp add: inventory_check_flag_def ex2_def Let_def)
    show ?thesis
      using unresolved_save_same [OF assms ex(1) k] mem by (auto simp: f)
  qed
  then show "distinct (map RestockTaskItem.id (restock_task_items (inventory_check_flag d task it)))"
    and "unresolved_task_ids (inventory_check_flag d task it)
           = unresolved_task_ids d \<union> {RestockTask.id task}"
    by blast+
qed

lemma inventory_check_items_rows:
  "inventory_check_items d tray task its = Inr d' \<Longrightarrow>
   distinct (map RestockTaskItem.id (restock_task_items d)) \<Longrightarrow>
     distinct (map RestockTaskItem.id (restock_task_items d'))
     \<and> unresolved_task_ids d'
         = unresolved_task_ids d \<union> (if its = [] then {} else {RestockTask.id task})"
proof (induction its arbitrary: d)
  case Nil
  then show ?case by simp
next
  case (Cons it rest)
  from Cons.prems(1) obtain item where
    item: "get_TrayItem d (InventoryCheckItem.item_id it) = Some item"
      "TrayItem.tray_id item = Tray.id tray"
    and rest: "inventory_check_items
                 (inventory_check_flag (inventory_check_quantity d item it) task it)
                 tray task rest = Inr d'"
    by (auto split: option.splits if_splits)
  let ?d1 = "inventory_check_quantity d item it"
  let ?d2 = "inventory_check_flag ?d1 task it"
  have d1: "distinct (map RestockTaskItem.id (restock_task_items ?d1))"
    using Cons.prems(2) by (simp add: inventory_check_quantity_frame)
  have u1: "unresolved_task_ids ?d1 = unresolved_task_ids d"
    by (rule unresolved_cong) (simp add: inventory_check_quantity_frame)
  note f = inventory_check_flag_rows [OF d1, of task it]
  from Cons.IH [OF rest f(1)] show ?case
    using f(2) u1 by auto
qed

lemma inventory_check_cases:
  obtains (unchanged) "snd (inventory_check d now p) = d"
  | (changed) tray task d1 d2 where
      "get_Tray d (InventoryCheckRequest.tray_id p) = Some tray"
      "InventoryCheckRequest.items p \<noteq> []"
      "ensure_open_restock_task d now (Tray.id tray) = (task, d1)"
      "inventory_check_items d1 tray task (InventoryCheckRequest.items p) = Inr d2"
      "restock_tasks (snd (inventory_check d now p))
           = map (\<lambda>t. if RestockTask.id t = RestockTask.id task
                      then task\<lparr>updated_at := now\<rparr> else t) (restock_tasks d2)"
      "restock_task_items (snd (inventory_check d now p)) = restock_task_items d2"
      "tray_items (snd (inventory_check d now p)) = tray_items d2"
proof (cases "get_Tray d (InventoryCheckRequest.tray_id p)")
  case None
  then show ?thesis
    by (intro unchanged) (simp add: inventory_check_def get_tray_or_404_def)
next
  case (Some tray)
  show ?thesis
  proof (cases "InventoryCheckRequest.items p = []")
    case True
    then show ?thesis using Some
      by (intro unchanged) (simp add: inventory_check_def get_tray_or_404_def)
  next
    case False
    obtain task d1 where e: "ensure_open_restock_task d now (Tray.id tray) = (task, d1)"
      by (cases "ensure_open_restock_task d now (Tray.id tray)")
    show ?thesis
    proof (cases "inventory_check_items d1 tray task (InventoryCheckRequest.items p)")
      case (Inl err)
      then show ?thesis using Some False e
        by (intro unchanged) (simp add: inventory_check_def get_tray_or_404_def)
    next
      case (Inr d2)
      have "restock_tasks (snd (inventory_check d now p))
           = map (\<lambda>t. if RestockTask.id t = RestockTask.id task
                      then task\<lparr>updated_at := now\<rparr> else t) (restock_tasks d2)"
        and "restock_task_items (snd (inventory_check d now p)) = restock_task_items d2"
        and "tray_items (snd (inventory_check d now p)) = tray_items d2"
        using Some False e Inr
        by (simp_all add: inventory_check_def get_tray_or_404_def Let_def save_Tray_def
              save_RestockTask_def split: prod.splits option.splits)
      with Some False e Inr show ?thesis by (rule changed)
    qed
  qed
qed

lemma inventory_check_inv:
  assumes inv: "lifecycle_inv d"
  shows "lifecycle_inv (snd (inventory_check d now p))"
proof (cases rule: inventory_check_cases [of d now p])
  case unchanged
  then show ?thesis using inv by simp
next
  case (changed tray task d1 d2)
  note ne = changed(2) and e = changed(3) and l = changed(4) and t = changed(5)
    and r = changed(6)
  note pre = ensure_open_pre [OF inv e]
  note tk = ensure_open_task [OF e]
  note fr = inventory_check_items_frame [OF l]
  note rows = inventory_check_items_rows [OF l pre(2)]
  have u: "unresolved_task_ids (snd (inventory_check d now p))
             = unresolved_task_ids d1 \<union> {RestockTask.id task}"
    using rows ne unresolved_cong [OF r] by simp
  show ?thesis
  proof (rule lifecycle_inv_transition [where ?d1.0 = d1 and task = task
          and obj = "task\<lparr>updated_at := now\<rparr>"])
    show "distinct (map RestockTask.id (restock_tasks d1))" by (rule pre(1))
    show "\<forall>k. length (open_tasks d1 k) \<le> 1" by (rule pre(3))
    show "task \<in> set (restock_tasks d1)" by (rule tk(1))
    show "\<forall>t\<in>set (restock_tasks d1). RestockTask.id t \<noteq> RestockTask.id task \<longrightarrow>
            (RestockTask.status t = rs_open \<longleftrightarrow> RestockTask.id t \<in> unresolved_task_ids d1)"
      by (rule pre(4))
    show "restock_tasks (snd (inventory_check d now p)) =
            map (\<lambda>t. if RestockTask.id t = RestockTask.id task
                     then task\<lparr>updated_at := now\<rparr> else t) (restock_tasks d1)"
      using t fr by simp
    show "distinct (map RestockTaskItem.id (restock_task_items (snd (inventory_check d now p))))"
      using rows r by simp
    show "unresolved_task_ids (snd (inventory_check d now p)) - {RestockTask.id task}
             = unresolved_task_ids d1 - {RestockTask.id task}"
      using u by auto
    show "RestockTask.status (task\<lparr>updated_at := now\<rparr>) = rs_open \<longleftrightarrow>
            RestockTask.id task \<in> unresolved_task_ids (snd (inventory_check d now p))"
      using u tk(3) by simp
  qed (simp_all)
qed

lemma unresolved_resolve:
  assumes "\<And>r. r \<in> set rows \<Longrightarrow> RestockTaskItem.task_id (h r) = RestockTaskItem.task_id r"
    and "\<And>r. r \<in> set rows \<Longrightarrow> RestockTaskItem.task_id r \<noteq> k \<Longrightarrow> restocked (h r) = restocked r"
  shows "RestockTaskItem.task_id ` {r \<in> set (map h rows). \<not> restocked r} - {k}
       = RestockTaskItem.task_id ` {r \<in> set rows. \<not> restocked r} - {k}"
proof (rule set_eqI, rule iffI)
  fix x assume "x \<in> RestockTaskItem.task_id ` {r \<in> set (map h rows). \<not> restocked r} - {k}"
  then obtain r where r: "r \<in> set rows" "\<not> restocked (h r)" "x = RestockTaskItem.task_id (h r)" "x \<noteq> k"
    by auto
  have a: "RestockTaskItem.task_id r = x" using r assms(1) by simp
  then have "\<not> restocked r" using r assms(2) by simp
  then have "r \<in> {r \<in> set rows. \<not> restocked r}" using r(1) by simp
  then have "x \<in> RestockTaskItem.task_id ` {r \<in> set rows. \<not> restocked r}"
    using a by (metis image_eqI)
  then show "x \<in> RestockTaskItem.task_id ` {r \<in> set rows. \<not> restocked r} - {k}"
    using r(4) by simp
next
  fix x assume "x \<in> RestockTaskItem.task_id ` {r \<in> set rows. \<not> restocked r} - {k}"
  then obtain r where r: "r \<in> set rows" "\<not> restocked r" "x = RestockTaskItem.task_id r" "x \<noteq> k"
    by auto
  have a: "RestockTaskItem.task_id (h r) = x" using r assms(1) by simp
  have "\<not> restocked (h r)" using r assms(2) by simp
  moreover have "h r \<in> set (map h rows)" using r(1) by simp
  ultimately have "h r \<in> {r \<in> set (map h rows). \<not> restocked r}" by simp
  then have "x \<in> RestockTaskItem.task_id ` {r \<in> set (map h rows). \<not> restocked r}"
    using a by (metis image_eqI)
  then show "x \<in> RestockTaskItem.task_id ` {r \<in> set (map h rows). \<not> restocked r} - {k}"
    using r(4) by simp
qed

lemma unresolved_none:
  "(\<And>r. r \<in> set rows \<Longrightarrow> RestockTaskItem.task_id (h r) = k \<Longrightarrow> restocked (h r)) \<Longrightarrow>
     k \<notin> RestockTaskItem.task_id ` {r \<in> set (map h rows). \<not> restocked r}"
  by auto

lemma restock_partial_resolve_keys:
  "RestockTaskItem.id (restock_partial_resolve by_id now user oi) = RestockTaskItem.id oi
   \<and> RestockTaskItem.task_id (restock_partial_resolve by_id now user oi) = RestockTaskItem.task_id oi
   \<and> RestockTaskItem.item_id (restock_partial_resolve by_id now user oi) = RestockTaskItem.item_id oi"
  by (simp add: restock_partial_resolve_def Let_def split: option.splits)

section \<open>The invariant of the task tables\<close>


lemma restock_full_inv:
  assumes inv: "lifecycle_inv d"
  shows "lifecycle_inv (snd (restock_full d now p))"
proof (cases "get_Tray d (RestockFullRequest.tray_id p)")
  case None
  then have "restock_tasks (snd (restock_full d now p)) = restock_tasks d"
    "restock_task_items (snd (restock_full d now p)) = restock_task_items d"
    by (simp_all add: restock_full_tasks restock_full_task_items)
  from lifecycle_inv_cong [OF this] show ?thesis using inv by simp
next
  case (Some tray)
  show ?thesis
  proof (cases "select_open_task d (Tray.id tray)")
    case None
    then have "restock_tasks (snd (restock_full d now p)) = restock_tasks d"
      "restock_task_items (snd (restock_full d now p)) = restock_task_items d"
      using Some by (simp_all add: restock_full_tasks restock_full_task_items)
    from lifecycle_inv_cong [OF this] show ?thesis using inv by simp
  next
    case (Some task)
    let ?d' = "snd (restock_full d now p)"
    let ?h = "\<lambda>oi. if RestockTaskItem.task_id oi = RestockTask.id task \<and> \<not> restocked oi
                         then oi\<lparr>restocked := True, restocked_at := Some now,
                                restocked_by := Some (RestockFullRequest.user_id p)\<rparr>
                         else oi"
    have t: "restock_tasks ?d' = map (\<lambda>t. if RestockTask.id t = RestockTask.id task
                        then task\<lparr>RestockTask.status := rs_closed, updated_at := now\<rparr> else t)
                 (restock_tasks d)"
      using \<open>get_Tray d (RestockFullRequest.tray_id p) = Some tray\<close> Some
      by (simp add: restock_full_tasks)
    have r: "restock_task_items ?d' = map ?h (restock_task_items d)"
      using \<open>get_Tray d (RestockFullRequest.tray_id p) = Some tray\<close> Some
      by (simp add: restock_full_task_items)
    note st = select_open_task_Some [OF Some]
    show ?thesis
    proof (rule lifecycle_inv_transition [where ?d1.0 = d and task = task
            and obj = "task\<lparr>RestockTask.status := rs_closed, updated_at := now\<rparr>"])
      show "distinct (map RestockTask.id (restock_tasks d))"
        using inv by (simp add: lifecycle_inv_def)
      show "\<forall>k. length (open_tasks d k) \<le> 1" using inv by (simp add: lifecycle_inv_def)
      show "task \<in> set (restock_tasks d)" using st by simp
      show "\<forall>t\<in>set (restock_tasks d). RestockTask.id t \<noteq> RestockTask.id task \<longrightarrow>
              (RestockTask.status t = rs_open \<longleftrightarrow> RestockTask.id t \<in> unresolved_task_ids d)"
        using inv by (simp add: lifecycle_inv_def)
      show "restock_tasks ?d' = map (\<lambda>t. if RestockTask.id t = RestockTask.id task
                        then task\<lparr>RestockTask.status := rs_closed, updated_at := now\<rparr> else t)
                 (restock_tasks d)" by (rule t)
      have "distinct (map RestockTaskItem.id (map ?h (restock_task_items d)))"
      proof (rule distinct_map_key)
        show "distinct (map RestockTaskItem.id (restock_task_items d))"
          using inv by (simp add: lifecycle_inv_def)
      qed simp
      then show "distinct (map RestockTaskItem.id (restock_task_items ?d'))"
        by (simp only: r)
      show "unresolved_task_ids ?d' - {RestockTask.id task}
               = unresolved_task_ids d - {RestockTask.id task}"
        unfolding unresolved_task_ids_def r
        by (rule unresolved_resolve) simp_all
      show "RestockTask.status (task\<lparr>RestockTask.status := rs_closed, updated_at := now\<rparr>) = rs_open
              \<longleftrightarrow> RestockTask.id task \<in> unresolved_task_ids ?d'"
      proof -
        have "RestockTask.id task \<notin> RestockTaskItem.task_id `
                {r \<in> set (map ?h (restock_task_items d)). \<not> restocked r}"
          by (rule unresolved_none) (simp split: if_splits)
        then show ?thesis by (simp add: unresolved_task_ids_def r)
      qed
    qed simp_all
  qed
qed

lemma select_open_task_cong:
  "restock_tasks d' = restock_tasks d \<Longrightarrow> select_open_task d' k = select_open_task d k"
  by (simp add: select_open_task_def)

lemma select_unresolved_cong:
  "restock_task_items d' = restock_task_items d \<Longrightarrow> select_unresolved d' k = select_unresolved d k"
  by (simp add: select_unresolved_def)

lemma close_restock_task_if_empty_Some:
  "select_open_task d k = Some task \<Longrightarrow>
     close_restock_task_if_empty d now k =
       (if select_unresolved d (RestockTask.id task) = []
        then save_RestockTask d (task\<lparr>RestockTask.status := rs_closed, updated_at := now\<rparr>)
        else d)"
  by (simp add: close_restock_task_if_empty_def Let_def)

lemma restock_partial_cases:
  obtains (unchanged) "snd (restock_partial d now p) = d"
  | (changed) tray task d1 d3 where
      "get_Tray d (RestockPartialRequest.tray_id p) = Some tray"
      "RestockPartialRequest.items p \<noteq> []"
      "ensure_open_restock_task d now (Tray.id tray) = (task, d1)"
      "restock_tasks d3 = restock_tasks d1"
      "restock_task_items d3 =
            map (\<lambda>oi. if RestockTaskItem.task_id oi = RestockTask.id task \<and> \<not> restocked oi
                      then restock_partial_resolve
                             (fold (\<lambda>p m. m(RestockPartialItem.item_id p \<mapsto> p))
                                (RestockPartialRequest.items p) Map.empty)
                             now (RestockPartialRequest.user_id p) oi
                      else oi) (restock_task_items d1)"
      "tray_items d3 = tray_items (restock_partial_quantities d1 tray (RestockPartialRequest.items p))"
      "restock_task_items (snd (restock_partial d now p)) = restock_task_items d3"
      "tray_items (snd (restock_partial d now p)) = tray_items d3"
      "restock_tasks (snd (restock_partial d now p)) =
            (if select_unresolved d3 (RestockTask.id task) = []
             then map (\<lambda>t. if RestockTask.id t = RestockTask.id task
                           then task\<lparr>RestockTask.status := rs_closed, updated_at := now\<rparr> else t)
                    (restock_tasks d1)
             else restock_tasks d1)"
proof (cases "get_Tray d (RestockPartialRequest.tray_id p)")
  case None
  then show ?thesis
    by (intro unchanged) (simp add: restock_partial_def get_tray_or_404_def)
next
  case (Some tray)
  show ?thesis
  proof (cases "RestockPartialRequest.items p = []")
    case True
    then show ?thesis using Some
      by (intro unchanged) (simp add: restock_partial_def get_tray_or_404_def)
  next
    case False
    obtain task d1 where e: "ensure_open_restock_task d now (Tray.id tray) = (task, d1)"
      by (cases "ensure_open_restock_task d now (Tray.id tray)")
    note tk = ensure_open_task [OF e]
    define d2 where "d2 = restock_partial_quantities d1 tray (RestockPartialRequest.items p)"
    define d3 where "d3 = d2\<lparr>restock_task_items :=
            map (\<lambda>oi. if RestockTaskItem.task_id oi = RestockTask.id task \<and> \<not> restocked oi
                      then restock_partial_resolve
                             (fold (\<lambda>p m. m(RestockPartialItem.item_id p \<mapsto> p))
                                (RestockPartialRequest.items p) Map.empty)
                             now (RestockPartialRequest.user_id p) oi
                      else oi) (restock_task_items d2)\<rparr>"
    have fr: "restock_tasks d2 = restock_tasks d1" "restock_task_items d2 = restock_task_items d1"
      by (simp_all add: d2_def restock_partial_quantities_frame)
    have so: "\<And>ev. select_open_task (d3\<lparr>events := ev\<rparr>) (Tray.id tray) = Some task"
      using tk(4) fr by (simp add: select_open_task_def d3_def)
    have su: "\<And>ev. select_unresolved (d3\<lparr>events := ev\<rparr>) (RestockTask.id task)
                = select_unresolved d3 (RestockTask.id task)"
      by (simp add: select_unresolved_def)
    have 1: "restock_task_items (snd (restock_partial d now p)) = restock_task_items d3
        \<and> tray_items (snd (restock_partial d now p)) = tray_items d3
        \<and> restock_tasks (snd (restock_partial d now p)) =
            (if select_unresolved d3 (RestockTask.id task) = []
             then map (\<lambda>t. if RestockTask.id t = RestockTask.id task
                           then task\<lparr>RestockTask.status := rs_closed, updated_at := now\<rparr> else t)
                    (restock_tasks d1)
             else restock_tasks d1)"
      using Some False e
      by (simp add: restock_partial_def get_tray_or_404_def Let_def d3_def [symmetric]
            d2_def [symmetric] close_restock_task_if_empty_Some [OF so] su
            save_Tray_def save_RestockTask_def
            split: prod.splits new_priority.splits)
        (simp add: d3_def fr)
    have 2: "restock_tasks d3 = restock_tasks d1" by (simp add: d3_def fr)
    have 3: "restock_task_items d3 =
            map (\<lambda>oi. if RestockTaskItem.task_id oi = RestockTask.id task \<and> \<not> restocked oi
                      then restock_partial_resolve
                             (fold (\<lambda>p m. m(RestockPartialItem.item_id p \<mapsto> p))
                                (RestockPartialRequest.items p) Map.empty)
                             now (RestockPartialRequest.user_id p) oi
                      else oi) (restock_task_items d1)" by (simp add: d3_def fr)
    have 4: "tray_items d3 = tray_items (restock_partial_quantities d1 tray (RestockPartialRequest.items p))"
      by (simp add: d3_def d2_def)
    show ?thesis
      using Some False e 2 3 4 1 [THEN conjunct1] 1 [THEN conjunct2, THEN conjunct1]
        1 [THEN conjunct2, THEN conjunct2]
      by (rule changed)
  qed
qed

lemma restock_partial_inv:
  assumes inv: "lifecycle_inv d"
  shows "lifecycle_inv (snd (restock_partial d now p))"
proof (cases rule: restock_partial_cases [of d now p])
  case unchanged
  then show ?thesis using inv by simp
next
  case (changed tray task d1 d3)
  let ?d' = "snd (restock_partial d now p)"
  note e = changed(3) and r3' = changed(5) and r = changed(7) and t = changed(9)
  define h where "h = (\<lambda>oi. if RestockTaskItem.task_id oi = RestockTask.id task \<and> \<not> restocked oi
                    then restock_partial_resolve
                           (fold (\<lambda>p m. m(RestockPartialItem.item_id p \<mapsto> p))
                              (RestockPartialRequest.items p) Map.empty)
                           now (RestockPartialRequest.user_id p) oi
                    else oi)"
  have r3: "restock_task_items d3 = map h (restock_task_items d1)"
    using r3' by (simp add: h_def)
  note pre = ensure_open_pre [OF inv e]
  note tk = ensure_open_task [OF e]
  have hk: "\<And>r. RestockTaskItem.id (h r) = RestockTaskItem.id r
              \<and> RestockTaskItem.task_id (h r) = RestockTaskItem.task_id r"
    by (simp add: h_def restock_partial_resolve_keys)
  have hr: "\<And>r. RestockTaskItem.task_id r \<noteq> RestockTask.id task \<Longrightarrow> restocked (h r) = restocked r"
    by (simp add: h_def)
  have u: "unresolved_task_ids ?d' = unresolved_task_ids d3"
    by (rule unresolved_cong) (rule r)
  have B2: "distinct (map RestockTaskItem.id (restock_task_items ?d'))"
    unfolding r r3 using pre(2) by (rule distinct_map_key) (simp add: hk)
  have B3: "unresolved_task_ids ?d' - {RestockTask.id task}
             = unresolved_task_ids d1 - {RestockTask.id task}"
    unfolding u unfolding unresolved_task_ids_def r3
    by (rule unresolved_resolve) (simp_all add: hk hr)
  show ?thesis
  proof (cases "select_unresolved d3 (RestockTask.id task) = []")
    case True
    show ?thesis
    proof (rule lifecycle_inv_transition [where ?d1.0 = d1 and task = task
          and obj = "task\<lparr>RestockTask.status := rs_closed, updated_at := now\<rparr>"])
      show "restock_tasks ?d' = map (\<lambda>t. if RestockTask.id t = RestockTask.id task
                         then task\<lparr>RestockTask.status := rs_closed, updated_at := now\<rparr> else t)
                  (restock_tasks d1)"
        using t True by simp
      show "RestockTask.status (task\<lparr>RestockTask.status := rs_closed, updated_at := now\<rparr>) = rs_open
            \<longleftrightarrow> RestockTask.id task \<in> unresolved_task_ids ?d'"
        using True by (simp add: u select_unresolved_Nil)
    qed (use pre tk B2 B3 in simp_all)
  next
    case False
    have self: "map (\<lambda>t. if RestockTask.id t = RestockTask.id task then task else t)
                  (restock_tasks d1) = restock_tasks d1"
      using pre(1) tk(1) by (rule replace_self)
    show ?thesis
    proof (rule lifecycle_inv_transition [where ?d1.0 = d1 and task = task and obj = task])
      show "restock_tasks ?d' = map (\<lambda>t. if RestockTask.id t = RestockTask.id task
                         then task else t) (restock_tasks d1)"
        using t False self by simp
      show "RestockTask.status task = rs_open
            \<longleftrightarrow> RestockTask.id task \<in> unresolved_task_ids ?d'"
        using False tk(3) by (simp add: u select_unresolved_Nil)
    qed (use pre tk B2 B3 in simp_all)
  qed
qed

lemma create_tray_frame:
  "restock_tasks (snd (create_tray d p)) = restock_tasks d
   \<and> restock_task_items (snd (create_tray d p)) = restock_task_items d
   \<and> tray_items (snd (create_tray d p)) = tray_items d"
  by (simp add: create_tray_def Let_def split: option.splits)

lemma create_tray_item_frame:
  "restock_tasks (snd (create_tray_item d p)) = restock_tasks d
   \<and> restock_task_items (snd (create_tray_item d p)) = restock_task_items d
   \<and> trays (snd (create_tray_item d p)) = trays d"
  by (simp add: create_tray_item_def get_tray_or_404_def Let_def split: option.splits)

lemma log_dropoff_frame:
  "restock_tasks (snd (log_dropoff d now p)) = restock_tasks d
   \<and> restock_task_items (snd (log_dropoff d now p)) = restock_task_items d
   \<and> tray_items (snd (log_dropoff d now p)) = tray_items d"
  by (simp add: log_dropoff_def get_tray_or_404_def Let_def save_Tray_def split: option.splits)

lemma handle_inv: "lifecycle_inv d \<Longrightarrow> lifecycle_inv (handle d now r)"
proof (cases r)
  case (Create_tray p)
  assume "lifecycle_inv d"
  then show ?thesis
    using lifecycle_inv_cong [of "snd (create_tray d p)" d] Create_tray
    by (simp add: create_tray_frame)
next
  case (Create_tray_item p)
  assume "lifecycle_inv d"
  then show ?thesis
    using lifecycle_inv_cong [of "snd (create_tray_item d p)" d] Create_tray_item
    by (simp add: create_tray_item_frame)
next
  case (Log_dropoff p)
  assume "lifecycle_inv d"
  then show ?thesis
    using lifecycle_inv_cong [of "snd (log_dropoff d now p)" d] Log_dropoff
    by (simp add: log_dropoff_frame)
next
  case (Inventory_check p)
  assume "lifecycle_inv d"
  then show ?thesis using Inventory_check by (simp add: inventory_check_inv)
next
  case (Restock_full p)
  assume "lifecycle_inv d"
  then show ?thesis using Restock_full by (simp add: restock_full_inv)
next
  case (Restock_partial p)
  assume "lifecycle_inv d"
  then show ?thesis using Restock_partial by (simp add: restock_partial_inv)
qed

lemma run_inv: "lifecycle_inv d \<Longrightarrow> lifecycle_inv (run d rs)"
  by (induction d rs rule: run.induct) (simp_all add: handle_inv)

lemma empty_db_inv: "lifecycle_inv empty_db"
  by (simp add: lifecycle_inv_def empty_db_def open_tasks_def)

lemma reachable_inv: "lifecycle_inv (run empty_db rs)"
  by (rule run_inv) (rule empty_db_inv)







lemma replace_closed_stays:
  assumes "distinct (map RestockTask.id ts)" "task \<in> set ts" "RestockTask.status task = rs_open"
    and "RestockTask.id obj = RestockTask.id task"
    and "t \<in> set ts" "RestockTask.status t = rs_closed"
    and "t' \<in> set (map (\<lambda>t. if RestockTask.id t = RestockTask.id task then obj else t) ts)"
    and "RestockTask.id t' = RestockTask.id t"
  shows "RestockTask.status t' = rs_closed"
proof -
  from assms(7) obtain u where u: "u \<in> set ts"
    "t' = (if RestockTask.id u = RestockTask.id task then obj else u)" by auto
  have "RestockTask.id u = RestockTask.id t" using u(2) assms(4,8) by (auto split: if_splits)
  then have "u = t" by (rule distinct_key_eq [OF assms(1) u(1) assms(5)])
  moreover have "RestockTask.id t \<noteq> RestockTask.id task"
  proof
    assume "RestockTask.id t = RestockTask.id task"
    then have "t = task" by (rule distinct_key_eq [OF assms(1) assms(5) assms(2)])
    then show False using assms(3,6) by simp
  qed
  ultimately show ?thesis using u(2) assms(6) by simp
qed

lemma ensure_open_old:
  assumes "ensure_open_restock_task d now k0 = (task, d1)" "t \<in> set (restock_tasks d)"
  shows "t \<in> set (restock_tasks d1)"
  using ensure_open_cases [OF assms(1)] assms(2) by auto

lemma handle_closed_stays:
  assumes inv: "lifecycle_inv d"
    and t: "t \<in> set (restock_tasks d)" "RestockTask.status t = rs_closed"
    and t': "t' \<in> set (restock_tasks (handle d now r))" "RestockTask.id t' = RestockTask.id t"
  shows "RestockTask.status t' = rs_closed"
proof -
  have dd: "distinct (map RestockTask.id (restock_tasks d))"
    using inv by (simp add: lifecycle_inv_def)
  have same: "RestockTask.status t' = rs_closed"
    if "restock_tasks (handle d now r) = restock_tasks d"
  proof -
    have "t' \<in> set (restock_tasks d)" using t'(1) that by simp
    then have "t' = t" using t(1) t'(2) by (rule distinct_key_eq [OF dd])
    then show ?thesis using t(2) by simp
  qed
  show ?thesis
  proof (cases r)
    case (Create_tray p)
    then show ?thesis by (intro same) (simp add: create_tray_frame)
  next
    case (Create_tray_item p)
    then show ?thesis by (intro same) (simp add: create_tray_item_frame)
  next
    case (Log_dropoff p)
    then show ?thesis by (intro same) (simp add: log_dropoff_frame)
  next
    case (Inventory_check p)
    show ?thesis
    proof (cases rule: inventory_check_cases [of d now p])
      case unchanged
      then show ?thesis using Inventory_check by (intro same) simp
    next
      case (changed tray task d1 d2)
      note e = changed(3) and l = changed(4) and ts = changed(5)
      note pre = ensure_open_pre [OF inv e]
      note tk = ensure_open_task [OF e]
      note fr = inventory_check_items_frame [OF l]
      have "t' \<in> set (map (\<lambda>t. if RestockTask.id t = RestockTask.id task
                      then task\<lparr>updated_at := now\<rparr> else t) (restock_tasks d1))"
        using t'(1) Inventory_check ts fr by simp
      with pre(1) tk(1) tk(3) _ ensure_open_old [OF e t(1)] t(2)
      show ?thesis using t'(2) by (rule replace_closed_stays) simp
    qed
  next
    case (Restock_full p)
    show ?thesis
    proof (cases "get_Tray d (RestockFullRequest.tray_id p)")
      case None
      then show ?thesis using Restock_full by (intro same) (simp add: restock_full_tasks)
    next
      case (Some tray)
      show ?thesis
      proof (cases "select_open_task d (Tray.id tray)")
        case None
        then show ?thesis using Restock_full Some by (intro same) (simp add: restock_full_tasks)
      next
        case (Some task)
        note st = select_open_task_Some [OF Some]
        have "t' \<in> set (map (\<lambda>t. if RestockTask.id t = RestockTask.id task
                          then task\<lparr>RestockTask.status := rs_closed, updated_at := now\<rparr> else t)
                   (restock_tasks d))"
          using t'(1) Restock_full \<open>get_Tray d (RestockFullRequest.tray_id p) = Some tray\<close> Some
          by (simp add: restock_full_tasks)
        with dd st [THEN conjunct1] st [THEN conjunct2, THEN conjunct2] _ t(1) t(2)
        show ?thesis using t'(2) by (rule replace_closed_stays) simp
      qed
    qed
  next
    case (Restock_partial p)
    show ?thesis
    proof (cases rule: restock_partial_cases [of d now p])
      case unchanged
      then show ?thesis using Restock_partial by (intro same) simp
    next
      case (changed tray task d1 d3)
      note e = changed(3) and ts = changed(9)
      note pre = ensure_open_pre [OF inv e]
      note tk = ensure_open_task [OF e]
      show ?thesis
      proof (cases "select_unresolved d3 (RestockTask.id task) = []")
        case True
        then have "t' \<in> set (map (\<lambda>t. if RestockTask.id t = RestockTask.id task
                          then task\<lparr>RestockTask.status := rs_closed, updated_at := now\<rparr> else t)
                   (restock_tasks d1))"
          using t'(1) Restock_partial ts by simp
        with pre(1) tk(1) tk(3) _ ensure_open_old [OF e t(1)] t(2)
        show ?thesis using t'(2) by (rule replace_closed_stays) simp
      next
        case False
        then have "t' \<in> set (restock_tasks d1)" using t'(1) Restock_partial ts by simp
        then have "t' = t"
          using ensure_open_old [OF e t(1)] t'(2) by (rule distinct_key_eq [OF pre(1)])
        then show ?thesis using t(2) by simp
      qed
    qed
  qed
qed


section \<open>Properties of the restock task lifecycle\<close>



text \<open>
  C5. In every database that a sequence of requests reaches from the empty one, so after
  each request, a restock task is closed exactly when none of its rows is unresolved: no
  request leaves a closed task with an unresolved row, or an open task without one. A task
  that is closed stays closed under every request.
\<close>

theorem task_closed_iff_no_unresolved:
  "(\<forall>t\<in>set (restock_tasks (run empty_db rs)).
       RestockTask.status t = rs_closed
         \<longleftrightarrow> select_unresolved (run empty_db rs) (RestockTask.id t) = [])
   \<and> (\<forall>t\<in>set (restock_tasks (run empty_db rs)).
       \<forall>t'\<in>set (restock_tasks (handle (run empty_db rs) now r)).
         RestockTask.status t = rs_closed \<and> RestockTask.id t' = RestockTask.id t
           \<longrightarrow> RestockTask.status t' = rs_closed)"
proof (intro conjI ballI impI)
  fix t assume t: "t \<in> set (restock_tasks (run empty_db rs))"
  have "RestockTask.status t = rs_open \<longleftrightarrow> RestockTask.id t \<in> unresolved_task_ids (run empty_db rs)"
    using reachable_inv [of rs] t by (simp add: lifecycle_inv_def)
  then show "RestockTask.status t = rs_closed
         \<longleftrightarrow> select_unresolved (run empty_db rs) (RestockTask.id t) = []"
    by (cases "RestockTask.status t") (simp_all add: select_unresolved_Nil)
next
  fix t t'
  assume "t \<in> set (restock_tasks (run empty_db rs))"
    and "t' \<in> set (restock_tasks (handle (run empty_db rs) now r))"
    and "RestockTask.status t = rs_closed \<and> RestockTask.id t' = RestockTask.id t"
  then show "RestockTask.status t' = rs_closed"
    using handle_closed_stays [OF reachable_inv, of t rs t' now r] by simp
qed

theorem task_closed_iff_no_unresolved_witness:
  "restock_tasks (run empty_db demo_fully_restocked)
     = [\<lparr>RestockTask.id = 1, RestockTask.tray_id = 1, RestockTask.status = rs_closed,
         created_at = 4, updated_at = 5\<rparr>]
   \<and> select_unresolved (run empty_db demo_fully_restocked) 1 = []
   \<and> restock_tasks (run empty_db demo_checked)
     = [\<lparr>RestockTask.id = 1, RestockTask.tray_id = 1, RestockTask.status = rs_open,
         created_at = 4, updated_at = 4\<rparr>]
   \<and> select_unresolved (run empty_db demo_checked) 1 \<noteq> []
   \<and> restock_tasks (handle (run empty_db demo_fully_restocked) 6
         (Inventory_check (demo_check 1 [demo_flag 2 None] None)))
     = [\<lparr>RestockTask.id = 1, RestockTask.tray_id = 1, RestockTask.status = rs_closed,
         created_at = 4, updated_at = 5\<rparr>,
        \<lparr>RestockTask.id = 2, RestockTask.tray_id = 1, RestockTask.status = rs_open,
         created_at = 6, updated_at = 6\<rparr>]"
proof -
  have h1: "restock_tasks (run empty_db demo_fully_restocked)
     = [\<lparr>RestockTask.id = 1, RestockTask.tray_id = 1, RestockTask.status = rs_closed,
         created_at = 4, updated_at = 5\<rparr>]"
    by code_simp
  have h2: "restock_tasks (run empty_db demo_checked)
     = [\<lparr>RestockTask.id = 1, RestockTask.tray_id = 1, RestockTask.status = rs_open,
         created_at = 4, updated_at = 4\<rparr>]"
    by code_simp
  have h3: "restock_tasks (handle (run empty_db demo_fully_restocked) 6
         (Inventory_check (demo_check 1 [demo_flag 2 None] None)))
     = [\<lparr>RestockTask.id = 1, RestockTask.tray_id = 1, RestockTask.status = rs_closed,
         created_at = 4, updated_at = 5\<rparr>,
        \<lparr>RestockTask.id = 2, RestockTask.tray_id = 1, RestockTask.status = rs_open,
         created_at = 6, updated_at = 6\<rparr>]"
    by code_simp
  note a = task_closed_iff_no_unresolved [of demo_fully_restocked 6
             "Inventory_check (demo_check 1 [demo_flag 2 None] None)"]
  note b = task_closed_iff_no_unresolved [of demo_checked 6
             "Inventory_check (demo_check 1 [demo_flag 2 None] None)"]
  show ?thesis using a b h1 h2 h3 by simp
qed

section \<open>Full and partial restock\<close>


lemma get_Tray_Some:
  "get_Tray d k = Some tray \<Longrightarrow> tray \<in> set (trays d) \<and> Tray.id tray = k"
  by (auto simp: get_Tray_def find_Some_iff)

lemma find_replace:
  "find (\<lambda>t. f t = k) xs = Some x \<Longrightarrow> f y = k \<Longrightarrow>
     find (\<lambda>t. f t = k) (map (\<lambda>t. if f t = k then y else t) xs) = Some y"
  by (induction xs) (auto split: if_splits)

lemma get_Tray_save:
  "get_Tray d k = Some tray \<Longrightarrow> Tray.id obj = k \<Longrightarrow> get_Tray (save_Tray d obj) k = Some obj"
  unfolding get_Tray_def save_Tray_def by (simp add: find_replace)

lemma find_map_key:
  "(\<And>x. P (f x) = P x) \<Longrightarrow> find P (map f xs) = map_option f (find P xs)"
  by (induction xs) auto

lemma filter_map_Nil:
  "(\<And>x. x \<in> set xs \<Longrightarrow> \<not> Q (h x)) \<Longrightarrow> filter Q (map h xs) = []"
  by (induction xs) auto

lemma ball_mapI:
  "(\<And>x. x \<in> set xs \<Longrightarrow> P (g x)) \<Longrightarrow> \<forall>t\<in>set (map g xs). P t"
  by simp

lemma restock_full_result:
  assumes "get_Tray d (RestockFullRequest.tray_id p) = Some tray"
  obtains tray' where
    "fst (restock_full d now p) = Inr (tray_to_out (snd (restock_full d now p)) tray')"
    "trays (snd (restock_full d now p))
       = map (\<lambda>t. if Tray.id t = Tray.id tray then tray' else t) (trays d)"
    "Tray.id tray' = Tray.id tray" "Tray.status tray' = ready"
    "priority_numeric tray' = None" "priority_partial tray' = False" "color tray' = COLOR_GREEN"
proof (cases "RestockFullRequest.location_type p")
  case None
  let ?t = "tray\<lparr>Tray.status := ready, priority_numeric := None, priority_partial := False,
                 color := COLOR_GREEN\<rparr>"
  show ?thesis
    by (rule that [of ?t])
       (use assms None in \<open>simp_all add: restock_full_def get_tray_or_404_def Let_def
          map_color_def save_Tray_def save_RestockTask_def split: option.splits\<close>)
next
  case (Some l)
  let ?t = "tray\<lparr>Tray.status := ready, priority_numeric := None, priority_partial := False,
                 color := COLOR_GREEN, last_location_type := Some l,
                 last_location_name := RestockFullRequest.location_name p,
                 last_seen_at := Some now\<rparr>"
  show ?thesis
    by (rule that [of ?t])
       (use assms Some in \<open>simp_all add: restock_full_def get_tray_or_404_def Let_def
          map_color_def save_Tray_def save_RestockTask_def split: option.splits\<close>)
qed

lemma restock_full_tray_items:
  assumes "get_Tray d (RestockFullRequest.tray_id p) = Some tray"
  shows "tray_items (snd (restock_full d now p))
           = map (\<lambda>item. if TrayItem.tray_id item = Tray.id tray
                         then (case TrayItem.qty_expected item of
                                 None \<Rightarrow> item
                               | Some e \<Rightarrow> item\<lparr>TrayItem.qty_on_hand := Some e\<rparr>)
                         else item) (tray_items d)"
  using assms
  by (simp add: restock_full_def get_tray_or_404_def Let_def
        save_Tray_def save_RestockTask_def split: option.splits)

text \<open>
  C6. For a tray that exists, full restock succeeds. If the tray has an open task, every row
  of that task that was unresolved is now marked restocked, with the user of the request
  and the time of the request, no row of the task is unresolved, and the task is closed.
  The tray is ready, its priority is (null, false) and its colour green. Every item of the
  tray that has an expected quantity has that quantity on hand.
\<close>

theorem restock_full_resets:
  assumes "get_Tray d (RestockFullRequest.tray_id p) = Some tray"
  shows "\<exists>out d'. restock_full d now p = (Inr out, d')
     \<and> (\<forall>task. select_open_task d (Tray.id tray) = Some task \<longrightarrow>
           (\<forall>oi\<in>set (restock_task_items d).
              RestockTaskItem.task_id oi = RestockTask.id task \<and> \<not> restocked oi \<longrightarrow>
                oi\<lparr>restocked := True, restocked_at := Some now,
                    restocked_by := Some (RestockFullRequest.user_id p)\<rparr>
                  \<in> set (restock_task_items d'))
           \<and> select_unresolved d' (RestockTask.id task) = []
           \<and> task\<lparr>RestockTask.status := rs_closed, updated_at := now\<rparr> \<in> set (restock_tasks d')
           \<and> (\<forall>t\<in>set (restock_tasks d').
                 RestockTask.id t = RestockTask.id task \<longrightarrow> RestockTask.status t = rs_closed))
     \<and> (\<exists>tray'. get_Tray d' (RestockFullRequest.tray_id p) = Some tray' \<and> fst out = tray'
           \<and> Tray.status tray' = ready \<and> priority_numeric tray' = None
           \<and> priority_partial tray' = False \<and> color tray' = COLOR_GREEN)
     \<and> (\<forall>k item. get_TrayItem d k = Some item \<and> TrayItem.tray_id item = Tray.id tray
           \<longrightarrow> (\<exists>item'. get_TrayItem d' k = Some item'
                  \<and> (\<forall>e. TrayItem.qty_expected item = Some e \<longrightarrow>
                        item' = item\<lparr>TrayItem.qty_on_hand := Some e\<rparr>)))
     \<and> (\<forall>item'\<in>set (tray_items d').
           TrayItem.tray_id item' = Tray.id tray \<and> TrayItem.qty_expected item' \<noteq> None
             \<longrightarrow> TrayItem.qty_on_hand item' = TrayItem.qty_expected item')"
proof -
  let ?d' = "snd (restock_full d now p)"
  note ti = restock_full_tray_items [OF assms, of now]
  note ts = restock_full_tasks [of d now p]
  note rs = restock_full_task_items [of d now p]
  note gt = get_Tray_Some [OF assms]
  from assms obtain tray' where tr:
    "fst (restock_full d now p) = Inr (tray_to_out ?d' tray')"
    "trays ?d' = map (\<lambda>t. if Tray.id t = Tray.id tray then tray' else t) (trays d)"
    "Tray.id tray' = Tray.id tray" "Tray.status tray' = ready"
    "priority_numeric tray' = None" "priority_partial tray' = False" "color tray' = COLOR_GREEN"
    by (rule restock_full_result)
  have A: "restock_full d now p = (Inr (tray_to_out ?d' tray'), ?d')"
    using tr(1) by (simp add: prod_eq_iff)
  have B: "(\<forall>oi\<in>set (restock_task_items d).
              RestockTaskItem.task_id oi = RestockTask.id task \<and> \<not> restocked oi \<longrightarrow>
                oi\<lparr>restocked := True, restocked_at := Some now,
                    restocked_by := Some (RestockFullRequest.user_id p)\<rparr>
                  \<in> set (restock_task_items ?d'))
           \<and> select_unresolved ?d' (RestockTask.id task) = []
           \<and> task\<lparr>RestockTask.status := rs_closed, updated_at := now\<rparr> \<in> set (restock_tasks ?d')
           \<and> (\<forall>t\<in>set (restock_tasks ?d').
                 RestockTask.id t = RestockTask.id task \<longrightarrow> RestockTask.status t = rs_closed)"
    if st: "select_open_task d (Tray.id tray) = Some task" for task
  proof -
    have m: "task \<in> set (restock_tasks d)" using select_open_task_Some [OF st] by simp
    have r: "restock_task_items ?d' =
               map (\<lambda>oi. if RestockTaskItem.task_id oi = RestockTask.id task \<and> \<not> restocked oi
                         then oi\<lparr>restocked := True, restocked_at := Some now,
                                restocked_by := Some (RestockFullRequest.user_id p)\<rparr>
                         else oi) (restock_task_items d)"
      using rs assms st by simp
    have t: "restock_tasks ?d' =
               map (\<lambda>t. if RestockTask.id t = RestockTask.id task
                        then task\<lparr>RestockTask.status := rs_closed, updated_at := now\<rparr> else t)
                 (restock_tasks d)"
      using ts assms st by simp
    let ?h = "\<lambda>oi. if RestockTaskItem.task_id oi = RestockTask.id task \<and> \<not> restocked oi
                         then oi\<lparr>restocked := True, restocked_at := Some now,
                                restocked_by := Some (RestockFullRequest.user_id p)\<rparr>
                         else oi"
    let ?g = "\<lambda>t. if RestockTask.id t = RestockTask.id task
                        then task\<lparr>RestockTask.status := rs_closed, updated_at := now\<rparr> else t"
    have 1: "\<forall>oi\<in>set (restock_task_items d).
              RestockTaskItem.task_id oi = RestockTask.id task \<and> \<not> restocked oi \<longrightarrow>
                oi\<lparr>restocked := True, restocked_at := Some now,
                    restocked_by := Some (RestockFullRequest.user_id p)\<rparr>
                  \<in> set (restock_task_items ?d')"
    proof (intro ballI impI)
      fix oi assume a: "oi \<in> set (restock_task_items d)"
        "RestockTaskItem.task_id oi = RestockTask.id task \<and> \<not> restocked oi"
      have "?h oi \<in> set (map ?h (restock_task_items d))" using a(1) by (simp del: map_eq_conv)
      then show "oi\<lparr>restocked := True, restocked_at := Some now,
                    restocked_by := Some (RestockFullRequest.user_id p)\<rparr>
                  \<in> set (restock_task_items ?d')"
        using a(2) by (simp only: r if_True simp_thms)
    qed
    have 2: "select_unresolved ?d' (RestockTask.id task) = []"
      unfolding select_unresolved_def r by (rule filter_map_Nil) (simp split: if_splits)
    have "?g task \<in> set (map ?g (restock_tasks d))" using m by (simp del: map_eq_conv)
    then have 3: "task\<lparr>RestockTask.status := rs_closed, updated_at := now\<rparr> \<in> set (restock_tasks ?d')"
      by (simp only: t if_True simp_thms)
    have 4: "\<forall>t\<in>set (restock_tasks ?d').
                 RestockTask.id t = RestockTask.id task \<longrightarrow> RestockTask.status t = rs_closed"
      unfolding t by (rule ball_mapI) simp
    show ?thesis using 1 2 3 4 by (intro conjI)
  qed
  have C: "get_Tray ?d' (RestockFullRequest.tray_id p) = Some tray'"
    using assms tr(2,3) gt unfolding get_Tray_def by (simp add: find_replace)
  have D: "\<exists>item'. get_TrayItem ?d' k = Some item'
                  \<and> (\<forall>e. TrayItem.qty_expected item = Some e \<longrightarrow>
                        item' = item\<lparr>TrayItem.qty_on_hand := Some e\<rparr>)"
    if "get_TrayItem d k = Some item" "TrayItem.tray_id item = Tray.id tray" for k item
  proof -
    let ?f = "\<lambda>item. if TrayItem.tray_id item = Tray.id tray
                         then (case TrayItem.qty_expected item of
                                 None \<Rightarrow> item
                               | Some e \<Rightarrow> item\<lparr>TrayItem.qty_on_hand := Some e\<rparr>)
                         else item"
    have "get_TrayItem ?d' k = map_option ?f (get_TrayItem d k)"
      unfolding get_TrayItem_def ti
      by (rule find_map_key) (simp split: option.splits)
    then show ?thesis using that by (simp split: option.splits)
  qed
  have E: "\<forall>item'\<in>set (tray_items ?d').
           TrayItem.tray_id item' = Tray.id tray \<and> TrayItem.qty_expected item' \<noteq> None
             \<longrightarrow> TrayItem.qty_on_hand item' = TrayItem.qty_expected item'"
    unfolding ti by (rule ball_mapI) (simp split: option.splits)
  show ?thesis
  proof (rule exI [of _ "tray_to_out ?d' tray'"], rule exI [of _ ?d'], intro conjI allI impI)
    show "restock_full d now p = (Inr (tray_to_out ?d' tray'), ?d')" by (rule A)
  next
    fix task assume st: "select_open_task d (Tray.id tray) = Some task"
    from B [OF st] show "\<forall>oi\<in>set (restock_task_items d).
              RestockTaskItem.task_id oi = RestockTask.id task \<and> \<not> restocked oi \<longrightarrow>
                oi\<lparr>restocked := True, restocked_at := Some now,
                    restocked_by := Some (RestockFullRequest.user_id p)\<rparr>
                  \<in> set (restock_task_items ?d')" by (rule conjunct1)
  next
    fix task assume st: "select_open_task d (Tray.id tray) = Some task"
    from B [OF st] show "select_unresolved ?d' (RestockTask.id task) = []"
      by (elim conjE)
  next
    fix task assume st: "select_open_task d (Tray.id tray) = Some task"
    from B [OF st]
    show "task\<lparr>RestockTask.status := rs_closed, updated_at := now\<rparr> \<in> set (restock_tasks ?d')"
      by (elim conjE)
  next
    fix task assume st: "select_open_task d (Tray.id tray) = Some task"
    from B [OF st] show "\<forall>t\<in>set (restock_tasks ?d').
                 RestockTask.id t = RestockTask.id task \<longrightarrow> RestockTask.status t = rs_closed"
      by (elim conjE)
  next
    show "\<exists>t. get_Tray ?d' (RestockFullRequest.tray_id p) = Some t
           \<and> fst (tray_to_out ?d' tray') = t
           \<and> Tray.status t = ready \<and> priority_numeric t = None
           \<and> priority_partial t = False \<and> color t = COLOR_GREEN"
      using C tr(4-7) by (simp add: tray_to_out_def)
  next
    fix k item
    assume "get_TrayItem d k = Some item \<and> TrayItem.tray_id item = Tray.id tray"
    then show "\<exists>item'. get_TrayItem ?d' k = Some item'
                  \<and> (\<forall>e. TrayItem.qty_expected item = Some e \<longrightarrow>
                        item' = item\<lparr>TrayItem.qty_on_hand := Some e\<rparr>)"
      using D [of k item] by (elim conjE)
  next
    show "\<forall>item'\<in>set (tray_items ?d').
           TrayItem.tray_id item' = Tray.id tray \<and> TrayItem.qty_expected item' \<noteq> None
             \<longrightarrow> TrayItem.qty_on_hand item' = TrayItem.qty_expected item'"
      by (rule E)
  qed
qed

theorem restock_full_resets_witness:
  "(\<exists>tray. get_Tray (run empty_db demo_checked) (RestockFullRequest.tray_id (demo_full 1)) = Some tray)
   \<and> (\<exists>out d'. restock_full (run empty_db demo_checked) 5 (demo_full 1) = (Inr out, d')
         \<and> (\<exists>tray'. get_Tray d' (RestockFullRequest.tray_id (demo_full 1)) = Some tray'
               \<and> fst out = tray' \<and> Tray.status tray' = ready \<and> priority_numeric tray' = None
               \<and> priority_partial tray' = False \<and> color tray' = COLOR_GREEN))"
proof -
  have "get_Tray (run empty_db demo_checked) (RestockFullRequest.tray_id (demo_full 1)) \<noteq> None"
    by code_simp
  then obtain tray where
    h: "get_Tray (run empty_db demo_checked) (RestockFullRequest.tray_id (demo_full 1)) = Some tray"
    by blast
  from restock_full_resets [OF h, of 5]
  have "\<exists>out d'. restock_full (run empty_db demo_checked) 5 (demo_full 1) = (Inr out, d')
         \<and> (\<exists>tray'. get_Tray d' (RestockFullRequest.tray_id (demo_full 1)) = Some tray'
               \<and> fst out = tray' \<and> Tray.status tray' = ready \<and> priority_numeric tray' = None
               \<and> priority_partial tray' = False \<and> color tray' = COLOR_GREEN)"
    by blast
  then show ?thesis using h by blast
qed



lemma restock_partial_result:
  assumes g: "get_Tray d (RestockPartialRequest.tray_id p) = Some tray"
    and ne: "RestockPartialRequest.items p \<noteq> []"
    and e: "ensure_open_restock_task d now (Tray.id tray) = (task, d1)"
  shows "\<exists>out. fst (restock_partial d now p) = Inr out
     \<and> trays (snd (restock_partial d now p))
          = map (\<lambda>t. if Tray.id t = Tray.id tray then fst out else t) (trays d)
     \<and> Tray.id (fst out) = Tray.id tray
     \<and> Tray.status (fst out)
          = (if select_unresolved (snd (restock_partial d now p)) (RestockTask.id task) \<noteq> []
             then needs_restock else ready)
     \<and> priority_numeric (fst out)
          = (case new_priority p of literal_partial \<Rightarrow> None | literal_int n \<Rightarrow> Some n)
     \<and> priority_partial (fst out)
          = (case new_priority p of
               literal_partial \<Rightarrow>
                 select_unresolved (snd (restock_partial d now p)) (RestockTask.id task) \<noteq> []
             | literal_int n \<Rightarrow> False)
     \<and> color (fst out) = map_color (priority_numeric (fst out)) (priority_partial (fst out))
                            (Tray.status (fst out) = ready)"
proof -
  note tk = ensure_open_task [OF e]
  define d2 where "d2 = restock_partial_quantities d1 tray (RestockPartialRequest.items p)"
  define d3 where "d3 = d2\<lparr>restock_task_items :=
          map (\<lambda>oi. if RestockTaskItem.task_id oi = RestockTask.id task \<and> \<not> restocked oi
                    then restock_partial_resolve
                           (fold (\<lambda>p m. m(RestockPartialItem.item_id p \<mapsto> p))
                              (RestockPartialRequest.items p) Map.empty)
                           now (RestockPartialRequest.user_id p) oi
                    else oi) (restock_task_items d2)\<rparr>"
  have fr: "restock_tasks d2 = restock_tasks d1" "trays d2 = trays d"
    by (simp_all add: d2_def restock_partial_quantities_frame tk)
  have so: "\<And>ev. select_open_task (d3\<lparr>events := ev\<rparr>) (Tray.id tray) = Some task"
    using tk(4) fr by (simp add: select_open_task_def d3_def)
  have su: "\<And>ev. select_unresolved (d3\<lparr>events := ev\<rparr>) (RestockTask.id task)
              = select_unresolved d3 (RestockTask.id task)"
    by (simp add: select_unresolved_def)
  have su2: "\<And>x obj. select_unresolved (save_Tray x obj) (RestockTask.id task)
              = select_unresolved x (RestockTask.id task)"
      "\<And>x obj. select_unresolved (save_RestockTask x obj) (RestockTask.id task)
              = select_unresolved x (RestockTask.id task)"
    by (simp_all add: select_unresolved_def save_Tray_def save_RestockTask_def)
  have tr: "\<And>x obj. trays (save_RestockTask x obj) = trays x"
       "\<And>ev. trays (d3\<lparr>events := ev\<rparr>) = trays d"
    by (simp_all add: save_RestockTask_def d3_def fr)
  have rows: "restock_task_items (snd (restock_partial d now p)) = restock_task_items d3"
    using g ne e
    by (simp add: restock_partial_def get_tray_or_404_def Let_def d3_def [symmetric]
          d2_def [symmetric] close_restock_task_if_empty_Some [OF so] su
          save_Tray_def save_RestockTask_def
          split: prod.splits new_priority.splits)
  have key: "select_unresolved (snd (restock_partial d now p)) (RestockTask.id task)
               = select_unresolved d3 (RestockTask.id task)"
    by (simp add: select_unresolved_def rows)
  show ?thesis
    unfolding key using g ne e
    by (simp add: restock_partial_def get_tray_or_404_def Let_def d3_def [symmetric]
          d2_def [symmetric] close_restock_task_if_empty_Some [OF so] su tr
          tray_to_out_def save_Tray_def
          split: prod.splits new_priority.splits option.splits)
qed

section \<open>Rows refer to tasks\<close>


lemma replace_image_subset:
  "f ` set (map (\<lambda>r. if g r = k then y else r) xs) \<subseteq> f ` set xs \<union> {f y}"
  by (induction xs) auto

lemma inventory_check_flag_task_ids:
  "RestockTaskItem.task_id ` set (restock_task_items (inventory_check_flag d task it))
     \<subseteq> RestockTaskItem.task_id ` set (restock_task_items d) \<union> {RestockTask.id task}"
proof (cases "find (\<lambda>r. RestockTaskItem.task_id r = RestockTask.id task
                \<and> RestockTaskItem.item_id r = InventoryCheckItem.item_id it \<and> \<not> restocked r)
              (restock_task_items d)")
  case None
  then show ?thesis by (simp add: inventory_check_flag_def)
next
  case (Some ex)
  then have ex: "RestockTaskItem.task_id ex = RestockTask.id task"
    by (auto simp: find_Some_iff)
  define ex2 where "ex2 =
      (let ex1 = (case InventoryCheckItem.reason it of
                           None \<Rightarrow> ex
                         | Some x \<Rightarrow> ex\<lparr>RestockTaskItem.reason := Some x\<rparr>)
       in (case InventoryCheckItem.qty_missing it of
                           None \<Rightarrow> ex1
                         | Some q \<Rightarrow> ex1\<lparr>RestockTaskItem.qty_missing := Some q\<rparr>))"
  have k: "RestockTaskItem.task_id ex2 = RestockTask.id task"
    using ex by (auto simp: ex2_def Let_def split: option.splits)
  have f: "inventory_check_flag d task it = save_RestockTaskItem d ex2"
    using Some by (simp add: inventory_check_flag_def ex2_def Let_def)
  have "RestockTaskItem.task_id ` set (restock_task_items (save_RestockTaskItem d ex2))
          \<subseteq> RestockTaskItem.task_id ` set (restock_task_items d) \<union> {RestockTaskItem.task_id ex2}"
    unfolding save_RestockTaskItem_def
    using replace_image_subset [of RestockTaskItem.task_id RestockTaskItem.id "RestockTaskItem.id ex2" ex2
            "restock_task_items d"]
    by simp
  then show ?thesis unfolding f k .
qed

lemma inventory_check_items_task_ids:
  "inventory_check_items d tray task its = Inr d' \<Longrightarrow>
     RestockTaskItem.task_id ` set (restock_task_items d')
       \<subseteq> RestockTaskItem.task_id ` set (restock_task_items d) \<union> {RestockTask.id task}"
proof (induction its arbitrary: d)
  case Nil
  then show ?case by auto
next
  case (Cons it rest)
  from Cons.prems obtain item where
    rest: "inventory_check_items
                 (inventory_check_flag (inventory_check_quantity d item it) task it)
                 tray task rest = Inr d'"
    by (auto split: option.splits if_splits)
  have "RestockTaskItem.task_id ` set (restock_task_items
           (inventory_check_flag (inventory_check_quantity d item it) task it))
        \<subseteq> RestockTaskItem.task_id ` set (restock_task_items d) \<union> {RestockTask.id task}"
    using inventory_check_flag_task_ids [of "inventory_check_quantity d item it" task it]
    by (simp add: inventory_check_quantity_frame)
  then show ?case using Cons.IH [OF rest] by blast
qed

lemma rows_refer_transition:
  assumes "rows_refer_to_tasks d"
    and "RestockTask.id ` set (restock_tasks d) \<subseteq> RestockTask.id ` set (restock_tasks d')"
    and "RestockTaskItem.task_id ` set (restock_task_items d')
           \<subseteq> RestockTaskItem.task_id ` set (restock_task_items d) \<union> X"
    and "X \<subseteq> RestockTask.id ` set (restock_tasks d')"
  shows "rows_refer_to_tasks d'"
  unfolding rows_refer_to_tasks_def
proof
  fix r assume "r \<in> set (restock_task_items d')"
  then have "RestockTaskItem.task_id r
               \<in> RestockTaskItem.task_id ` set (restock_task_items d) \<union> X"
    using assms(3) by (meson imageI subsetD)
  then show "RestockTaskItem.task_id r \<in> RestockTask.id ` set (restock_tasks d')"
  proof
    assume "RestockTaskItem.task_id r \<in> RestockTaskItem.task_id ` set (restock_task_items d)"
    then obtain r0 where "r0 \<in> set (restock_task_items d)"
      "RestockTaskItem.task_id r = RestockTaskItem.task_id r0" by (rule imageE)
    then have "RestockTaskItem.task_id r \<in> RestockTask.id ` set (restock_tasks d)"
      using assms(1) by (simp add: rows_refer_to_tasks_def)
    then show ?thesis using assms(2) by (rule subsetD [rotated])
  next
    assume "RestockTaskItem.task_id r \<in> X"
    then show ?thesis using assms(4) by (rule subsetD [rotated])
  qed
qed

lemma image_map_key:
  "(\<And>x. f (h x) = f x) \<Longrightarrow> f ` set (map h xs) = f ` set xs"
  by (induction xs) auto

lemma replace_ids:
  "RestockTask.id obj = RestockTask.id task \<Longrightarrow>
     RestockTask.id ` set (map (\<lambda>t. if RestockTask.id t = RestockTask.id task then obj else t) ts)
       = RestockTask.id ` set ts"
  by (rule image_map_key) simp

lemma ensure_open_ids:
  assumes "ensure_open_restock_task d now k = (task, d1)"
  shows "RestockTask.id ` set (restock_tasks d) \<subseteq> RestockTask.id ` set (restock_tasks d1)"
proof -
  from ensure_open_cases [OF assms] have "restock_tasks d1 = restock_tasks d
      \<or> restock_tasks d1 = restock_tasks d @ [task]"
    by (elim disjE conjE) simp_all
  then show ?thesis by (elim disjE) auto
qed


lemma handle_rows_refer:
  assumes inv: "rows_refer_to_tasks d"
  shows "rows_refer_to_tasks (handle d now r)"
proof (cases r)
  case (Create_tray p)
  then show ?thesis using inv by (simp add: rows_refer_to_tasks_def create_tray_frame)
next
  case (Create_tray_item p)
  then show ?thesis using inv by (simp add: rows_refer_to_tasks_def create_tray_item_frame)
next
  case (Log_dropoff p)
  then show ?thesis using inv by (simp add: rows_refer_to_tasks_def log_dropoff_frame)
next
  case (Inventory_check p)
  show ?thesis
  proof (cases rule: inventory_check_cases [of d now p])
    case unchanged
    then show ?thesis using Inventory_check inv by simp
  next
    case (changed tray task d1 d2)
    note e = changed(3) and l = changed(4) and t = changed(5) and rw = changed(6)
    note tk = ensure_open_task [OF e]
    note fr = inventory_check_items_frame [OF l]
    have ids: "RestockTask.id ` set (restock_tasks (snd (inventory_check d now p)))
                 = RestockTask.id ` set (restock_tasks d1)"
      unfolding t using fr by (simp add: replace_ids del: set_map)
    have "rows_refer_to_tasks (snd (inventory_check d now p))"
    proof (rule rows_refer_transition [OF inv, where X = "{RestockTask.id task}"])
      show "RestockTask.id ` set (restock_tasks d)
              \<subseteq> RestockTask.id ` set (restock_tasks (snd (inventory_check d now p)))"
        unfolding ids by (rule ensure_open_ids [OF e])
      show "RestockTaskItem.task_id ` set (restock_task_items (snd (inventory_check d now p)))
           \<subseteq> RestockTaskItem.task_id ` set (restock_task_items d) \<union> {RestockTask.id task}"
        unfolding rw using inventory_check_items_task_ids [OF l] tk(7) by simp
      show "{RestockTask.id task} \<subseteq> RestockTask.id ` set (restock_tasks (snd (inventory_check d now p)))"
        unfolding ids using tk(1) by blast
    qed
    then show ?thesis using Inventory_check by simp
  qed
next
  case (Restock_full p)
  have "rows_refer_to_tasks (snd (restock_full d now p))"
  proof (rule rows_refer_transition [OF inv, where X = "{}"])
    show "RestockTask.id ` set (restock_tasks d)
            \<subseteq> RestockTask.id ` set (restock_tasks (snd (restock_full d now p)))"
      by (simp add: restock_full_tasks replace_ids del: set_map split: option.splits)
    show "RestockTaskItem.task_id ` set (restock_task_items (snd (restock_full d now p)))
           \<subseteq> RestockTaskItem.task_id ` set (restock_task_items d) \<union> {}"
    proof -
      have "RestockTaskItem.task_id ` set (restock_task_items (snd (restock_full d now p)))
              = RestockTaskItem.task_id ` set (restock_task_items d)"
        unfolding restock_full_task_items
        by (simp split: option.splits del: set_map) (intro allI impI image_map_key, simp)
      then show ?thesis by simp
    qed
  qed simp
  then show ?thesis using Restock_full by simp
next
  case (Restock_partial p)
  show ?thesis
  proof (cases rule: restock_partial_cases [of d now p])
    case unchanged
    then show ?thesis using Restock_partial inv by simp
  next
    case (changed tray task d1 d3)
    note e = changed(3) and r3 = changed(5) and rw = changed(7) and t = changed(9)
    note tk = ensure_open_task [OF e]
    have ids: "RestockTask.id ` set (restock_tasks (snd (restock_partial d now p)))
                 = RestockTask.id ` set (restock_tasks d1)"
      unfolding t by (simp add: replace_ids del: set_map)
    have "rows_refer_to_tasks (snd (restock_partial d now p))"
    proof (rule rows_refer_transition [OF inv, where X = "{}"])
      show "RestockTask.id ` set (restock_tasks d)
              \<subseteq> RestockTask.id ` set (restock_tasks (snd (restock_partial d now p)))"
        unfolding ids by (rule ensure_open_ids [OF e])
      show "RestockTaskItem.task_id ` set (restock_task_items (snd (restock_partial d now p)))
           \<subseteq> RestockTaskItem.task_id ` set (restock_task_items d) \<union> {}"
      proof -
        have "RestockTaskItem.task_id ` set (restock_task_items (snd (restock_partial d now p)))
              = RestockTaskItem.task_id ` set (restock_task_items d)"
          unfolding rw r3 tk(7)
          by (rule image_map_key) (simp add: restock_partial_resolve_keys)
        then show ?thesis by simp
      qed
    qed simp
    then show ?thesis using Restock_partial by simp
  qed
qed

lemma reachable_rows_refer: "rows_refer_to_tasks (run empty_db rs)"
proof -
  have "rows_refer_to_tasks d \<Longrightarrow> rows_refer_to_tasks (run d rs)" for d
    by (induction d rs rule: run.induct) (simp_all add: handle_rows_refer)
  moreover have "rows_refer_to_tasks empty_db"
    by (simp add: rows_refer_to_tasks_def empty_db_def)
  ultimately show ?thesis by blast
qed

lemma fresh_task_no_rows:
  "select_unresolved (run empty_db rs)
     (next_id (map RestockTask.id (restock_tasks (run empty_db rs)))) = []"
proof -
  let ?n = "next_id (map RestockTask.id (restock_tasks (run empty_db rs)))"
  have fresh: "?n \<notin> RestockTask.id ` set (restock_tasks (run empty_db rs))"
    using next_id_notin [of "map RestockTask.id (restock_tasks (run empty_db rs))"] by simp
  have refer: "\<forall>r\<in>set (restock_task_items (run empty_db rs)).
      RestockTaskItem.task_id r \<in> RestockTask.id ` set (restock_tasks (run empty_db rs))"
    using reachable_rows_refer [of rs] by (simp add: rows_refer_to_tasks_def)
  have "RestockTaskItem.task_id r \<noteq> ?n" if "r \<in> set (restock_task_items (run empty_db rs))" for r
  proof
    assume "RestockTaskItem.task_id r = ?n"
    moreover have "RestockTaskItem.task_id r \<in> RestockTask.id ` set (restock_tasks (run empty_db rs))"
      using refer that by (rule bspec)
    ultimately show False using fresh by simp
  qed
  then show ?thesis
    by (simp add: select_unresolved_def filter_empty_conv)
qed

section \<open>Partial restock\<close>


lemma restock_partial_effect:
  assumes g: "get_Tray d (RestockPartialRequest.tray_id p) = Some tray"
    and ne: "RestockPartialRequest.items p \<noteq> []"
    and e: "ensure_open_restock_task d now (Tray.id tray) = (task, d1)"
  shows "restock_task_items (snd (restock_partial d now p)) =
            map (\<lambda>oi. if RestockTaskItem.task_id oi = RestockTask.id task \<and> \<not> restocked oi
                      then restock_partial_resolve
                             (fold (\<lambda>p m. m(RestockPartialItem.item_id p \<mapsto> p))
                                (RestockPartialRequest.items p) Map.empty)
                             now (RestockPartialRequest.user_id p) oi
                      else oi) (restock_task_items d)"
    and "restock_tasks (snd (restock_partial d now p)) =
            (if select_unresolved (snd (restock_partial d now p)) (RestockTask.id task) = []
             then map (\<lambda>t. if RestockTask.id t = RestockTask.id task
                           then task\<lparr>RestockTask.status := rs_closed, updated_at := now\<rparr> else t)
                    (restock_tasks d1)
             else restock_tasks d1)"
    and "tray_items (snd (restock_partial d now p))
           = tray_items (restock_partial_quantities d1 tray (RestockPartialRequest.items p))"
proof -
  note tk = ensure_open_task [OF e]
  define d2 where "d2 = restock_partial_quantities d1 tray (RestockPartialRequest.items p)"
  define d3 where "d3 = d2\<lparr>restock_task_items :=
          map (\<lambda>oi. if RestockTaskItem.task_id oi = RestockTask.id task \<and> \<not> restocked oi
                    then restock_partial_resolve
                           (fold (\<lambda>p m. m(RestockPartialItem.item_id p \<mapsto> p))
                              (RestockPartialRequest.items p) Map.empty)
                           now (RestockPartialRequest.user_id p) oi
                    else oi) (restock_task_items d2)\<rparr>"
  have fr: "restock_tasks d2 = restock_tasks d1" "restock_task_items d2 = restock_task_items d"
    by (simp_all add: d2_def restock_partial_quantities_frame tk)
  have so: "\<And>ev. select_open_task (d3\<lparr>events := ev\<rparr>) (Tray.id tray) = Some task"
    using tk(4) fr by (simp add: select_open_task_def d3_def)
  have su: "\<And>ev. select_unresolved (d3\<lparr>events := ev\<rparr>) (RestockTask.id task)
              = select_unresolved d3 (RestockTask.id task)"
    by (simp add: select_unresolved_def)
  have rows: "restock_task_items (snd (restock_partial d now p)) = restock_task_items d3"
    using g ne e
    by (simp add: restock_partial_def get_tray_or_404_def Let_def d3_def [symmetric]
          d2_def [symmetric] close_restock_task_if_empty_Some [OF so] su
          save_Tray_def save_RestockTask_def
          split: prod.splits new_priority.splits)
  have key: "select_unresolved (snd (restock_partial d now p)) (RestockTask.id task)
               = select_unresolved d3 (RestockTask.id task)"
    by (simp add: select_unresolved_def rows)
  show "restock_task_items (snd (restock_partial d now p)) =
            map (\<lambda>oi. if RestockTaskItem.task_id oi = RestockTask.id task \<and> \<not> restocked oi
                      then restock_partial_resolve
                             (fold (\<lambda>p m. m(RestockPartialItem.item_id p \<mapsto> p))
                                (RestockPartialRequest.items p) Map.empty)
                             now (RestockPartialRequest.user_id p) oi
                      else oi) (restock_task_items d)"
    unfolding rows by (simp add: d3_def fr)
  show "restock_tasks (snd (restock_partial d now p)) =
            (if select_unresolved (snd (restock_partial d now p)) (RestockTask.id task) = []
             then map (\<lambda>t. if RestockTask.id t = RestockTask.id task
                           then task\<lparr>RestockTask.status := rs_closed, updated_at := now\<rparr> else t)
                    (restock_tasks d1)
             else restock_tasks d1)"
    unfolding key using g ne e
    by (simp add: restock_partial_def get_tray_or_404_def Let_def d3_def [symmetric]
          d2_def [symmetric] close_restock_task_if_empty_Some [OF so] su
          save_Tray_def save_RestockTask_def
          split: prod.splits new_priority.splits)
       (simp add: d3_def fr)
  show "tray_items (snd (restock_partial d now p))
           = tray_items (restock_partial_quantities d1 tray (RestockPartialRequest.items p))"
    using g ne e
    by (simp add: restock_partial_def get_tray_or_404_def Let_def d3_def [symmetric]
          d2_def [symmetric] close_restock_task_if_empty_Some [OF so] su
          save_Tray_def save_RestockTask_def
          split: prod.splits new_priority.splits)
       (simp add: d3_def d2_def)
qed

text \<open>
  C7. A partial restock of a tray that exists, with at least one item, succeeds. Afterwards,
  if the task of the request (the open task of the tray, made when there was none) still
  has an unresolved row, the tray needs restock; otherwise the tray is ready and the task
  is closed. With the literal \<^verbatim>\<open>"partial"\<close> the priority is (null, true) when an unresolved
  row remains and (null, false) otherwise; with a number the priority is that number and
  false, taken as given and not merged with the priority the tray had.
\<close>

theorem restock_partial_outcome:
  assumes g: "get_Tray d (RestockPartialRequest.tray_id p) = Some tray"
    and ne: "RestockPartialRequest.items p \<noteq> []"
    and e: "ensure_open_restock_task d now (Tray.id tray) = (task, d1)"
  shows "\<exists>out d'. restock_partial d now p = (Inr out, d')
     \<and> get_Tray d' (RestockPartialRequest.tray_id p) = Some (fst out)
     \<and> (select_unresolved d' (RestockTask.id task) \<noteq> []
           \<longrightarrow> Tray.status (fst out) = needs_restock)
     \<and> (select_unresolved d' (RestockTask.id task) = []
           \<longrightarrow> Tray.status (fst out) = ready
               \<and> task\<lparr>RestockTask.status := rs_closed, updated_at := now\<rparr>
                   \<in> set (restock_tasks d')
               \<and> (\<forall>t\<in>set (restock_tasks d').
                     RestockTask.id t = RestockTask.id task \<longrightarrow> RestockTask.status t = rs_closed))
     \<and> (new_priority p = literal_partial
           \<longrightarrow> priority_numeric (fst out) = None
               \<and> (priority_partial (fst out) \<longleftrightarrow> select_unresolved d' (RestockTask.id task) \<noteq> []))
     \<and> (\<forall>n. new_priority p = literal_int n
           \<longrightarrow> priority_numeric (fst out) = Some n \<and> \<not> priority_partial (fst out))"
proof -
  let ?d' = "snd (restock_partial d now p)"
  note tk = ensure_open_task [OF e]
  note ef = restock_partial_effect [OF g ne e]
  note gt = get_Tray_Some [OF g]
  from restock_partial_result [OF g ne e] obtain out where out:
    "fst (restock_partial d now p) = Inr out"
    "trays ?d' = map (\<lambda>t. if Tray.id t = Tray.id tray then fst out else t) (trays d)"
    "Tray.id (fst out) = Tray.id tray"
    "Tray.status (fst out)
          = (if select_unresolved ?d' (RestockTask.id task) \<noteq> [] then needs_restock else ready)"
    "priority_numeric (fst out)
          = (case new_priority p of literal_partial \<Rightarrow> None | literal_int n \<Rightarrow> Some n)"
    "priority_partial (fst out)
          = (case new_priority p of
               literal_partial \<Rightarrow> select_unresolved ?d' (RestockTask.id task) \<noteq> []
             | literal_int n \<Rightarrow> False)"
    by (elim exE conjE) (rule that)
  have A: "restock_partial d now p = (Inr out, ?d')"
    using out(1) by (simp add: prod_eq_iff)
  have B: "get_Tray ?d' (RestockPartialRequest.tray_id p) = Some (fst out)"
    using g out(2,3) gt unfolding get_Tray_def by (simp add: find_replace)
  have C: "task\<lparr>RestockTask.status := rs_closed, updated_at := now\<rparr> \<in> set (restock_tasks ?d')
           \<and> (\<forall>t\<in>set (restock_tasks ?d').
                 RestockTask.id t = RestockTask.id task \<longrightarrow> RestockTask.status t = rs_closed)"
    if n: "select_unresolved ?d' (RestockTask.id task) = []"
  proof -
    let ?g = "\<lambda>t. if RestockTask.id t = RestockTask.id task
                           then task\<lparr>RestockTask.status := rs_closed, updated_at := now\<rparr> else t"
    have t: "restock_tasks ?d' = map ?g (restock_tasks d1)"
      using ef(2) n by simp
    have "?g task \<in> set (map ?g (restock_tasks d1))" using tk(1) by (simp del: map_eq_conv)
    then have 1: "task\<lparr>RestockTask.status := rs_closed, updated_at := now\<rparr> \<in> set (restock_tasks ?d')"
      by (simp only: t if_True simp_thms)
    have 2: "\<forall>t\<in>set (restock_tasks ?d').
                 RestockTask.id t = RestockTask.id task \<longrightarrow> RestockTask.status t = rs_closed"
      unfolding t by (rule ball_mapI) simp
    show ?thesis using 1 2 by (intro conjI)
  qed
  show ?thesis
  proof (rule exI [of _ out], rule exI [of _ ?d'], intro conjI allI impI)
    show "restock_partial d now p = (Inr out, ?d')" by (rule A)
    show "get_Tray ?d' (RestockPartialRequest.tray_id p) = Some (fst out)" by (rule B)
  next
    assume "select_unresolved ?d' (RestockTask.id task) \<noteq> []"
    then show "Tray.status (fst out) = needs_restock" using out(4) by simp
  next
    assume n: "select_unresolved ?d' (RestockTask.id task) = []"
    then show "Tray.status (fst out) = ready" using out(4) by simp
    from C [OF n] show "task\<lparr>RestockTask.status := rs_closed, updated_at := now\<rparr>
                   \<in> set (restock_tasks ?d')" by (rule conjunct1)
    from C [OF n] show "\<forall>t\<in>set (restock_tasks ?d').
                     RestockTask.id t = RestockTask.id task \<longrightarrow> RestockTask.status t = rs_closed"
      by (rule conjunct2)
  next
    assume "new_priority p = literal_partial"
    then show "priority_numeric (fst out) = None"
      and "priority_partial (fst out) \<longleftrightarrow> select_unresolved ?d' (RestockTask.id task) \<noteq> []"
      using out(5,6) by simp_all
  next
    fix n assume "new_priority p = literal_int n"
    then show "priority_numeric (fst out) = Some n" and "\<not> priority_partial (fst out)"
      using out(5,6) by simp_all
  qed
qed

theorem restock_partial_outcome_witness:
  "(\<exists>tray task d1 out d'.
       get_Tray (run empty_db demo_checked) 1 = Some tray
     \<and> ensure_open_restock_task (run empty_db demo_checked) 5 (Tray.id tray) = (task, d1)
     \<and> restock_partial (run empty_db demo_checked) 5
           (demo_partial 1 [demo_restocked 1 (Some 6)] literal_partial) = (Inr out, d')
     \<and> select_unresolved d' (RestockTask.id task) \<noteq> []
     \<and> Tray.status (fst out) = needs_restock
     \<and> priority_numeric (fst out) = None \<and> priority_partial (fst out))
   \<and> (\<exists>tray task d1 out d'.
       get_Tray (run empty_db demo_checked) 1 = Some tray
     \<and> ensure_open_restock_task (run empty_db demo_checked) 5 (Tray.id tray) = (task, d1)
     \<and> restock_partial (run empty_db demo_checked) 5
           (demo_partial 1 [demo_restocked 1 (Some 6), demo_restocked 2 None] (literal_int 2))
           = (Inr out, d')
     \<and> select_unresolved d' (RestockTask.id task) = []
     \<and> Tray.status (fst out) = ready
     \<and> task\<lparr>RestockTask.status := rs_closed, updated_at := 5\<rparr> \<in> set (restock_tasks d')
     \<and> priority_numeric (fst out) = Some 2 \<and> \<not> priority_partial (fst out))"
proof -
  let ?D = "run empty_db demo_checked"
  let ?P1 = "demo_partial 1 [demo_restocked 1 (Some 6)] literal_partial"
  let ?P2 = "demo_partial 1 [demo_restocked 1 (Some 6), demo_restocked 2 None] (literal_int 2)"
  let ?T = "\<lparr>RestockTask.id = 1, RestockTask.tray_id = 1, RestockTask.status = rs_open,
             created_at = 4, updated_at = 4\<rparr>"
  have "get_Tray ?D 1 \<noteq> None" by code_simp
  then obtain tray where g: "get_Tray ?D 1 = Some tray" by blast
  have id1: "Tray.id tray = 1" using get_Tray_Some [OF g] by simp
  have e0: "ensure_open_restock_task ?D 5 1 = (?T, ?D)" by code_simp
  have e: "ensure_open_restock_task ?D 5 (Tray.id tray) = (?T, ?D)" using e0 id1 by simp
  have k1: "RestockPartialRequest.tray_id ?P1 = 1" "RestockPartialRequest.items ?P1 \<noteq> []"
    "new_priority ?P1 = literal_partial"
    by (simp_all add: demo_partial_def)
  have k2: "RestockPartialRequest.tray_id ?P2 = 1" "RestockPartialRequest.items ?P2 \<noteq> []"
    "new_priority ?P2 = literal_int 2"
    by (simp_all add: demo_partial_def)
  have u1: "select_unresolved (snd (restock_partial ?D 5 ?P1)) (RestockTask.id ?T) \<noteq> []"
    by code_simp
  have u2: "select_unresolved (snd (restock_partial ?D 5 ?P2)) (RestockTask.id ?T) = []"
    by code_simp
  have g1: "get_Tray ?D (RestockPartialRequest.tray_id ?P1) = Some tray" using g k1(1) by simp
  have g2: "get_Tray ?D (RestockPartialRequest.tray_id ?P2) = Some tray" using g k2(1) by simp
  from restock_partial_outcome [OF g1 k1(2) e] obtain out1 d1' where r1:
    "restock_partial ?D 5 ?P1 = (Inr out1, d1')"
    "get_Tray d1' (RestockPartialRequest.tray_id ?P1) = Some (fst out1)"
    "select_unresolved d1' (RestockTask.id ?T) \<noteq> [] \<longrightarrow> Tray.status (fst out1) = needs_restock"
    "select_unresolved d1' (RestockTask.id ?T) = []
           \<longrightarrow> Tray.status (fst out1) = ready
               \<and> ?T\<lparr>RestockTask.status := rs_closed, updated_at := 5\<rparr> \<in> set (restock_tasks d1')
               \<and> (\<forall>t\<in>set (restock_tasks d1').
                     RestockTask.id t = RestockTask.id ?T \<longrightarrow> RestockTask.status t = rs_closed)"
    "new_priority ?P1 = literal_partial
           \<longrightarrow> priority_numeric (fst out1) = None
               \<and> (priority_partial (fst out1) \<longleftrightarrow> select_unresolved d1' (RestockTask.id ?T) \<noteq> [])"
    "\<forall>n. new_priority ?P1 = literal_int n
           \<longrightarrow> priority_numeric (fst out1) = Some n \<and> \<not> priority_partial (fst out1)"
    by (elim exE conjE) (rule that)
  from restock_partial_outcome [OF g2 k2(2) e] obtain out2 d2' where r2:
    "restock_partial ?D 5 ?P2 = (Inr out2, d2')"
    "get_Tray d2' (RestockPartialRequest.tray_id ?P2) = Some (fst out2)"
    "select_unresolved d2' (RestockTask.id ?T) \<noteq> [] \<longrightarrow> Tray.status (fst out2) = needs_restock"
    "select_unresolved d2' (RestockTask.id ?T) = []
           \<longrightarrow> Tray.status (fst out2) = ready
               \<and> ?T\<lparr>RestockTask.status := rs_closed, updated_at := 5\<rparr> \<in> set (restock_tasks d2')
               \<and> (\<forall>t\<in>set (restock_tasks d2').
                     RestockTask.id t = RestockTask.id ?T \<longrightarrow> RestockTask.status t = rs_closed)"
    "new_priority ?P2 = literal_partial
           \<longrightarrow> priority_numeric (fst out2) = None
               \<and> (priority_partial (fst out2) \<longleftrightarrow> select_unresolved d2' (RestockTask.id ?T) \<noteq> [])"
    "\<forall>n. new_priority ?P2 = literal_int n
           \<longrightarrow> priority_numeric (fst out2) = Some n \<and> \<not> priority_partial (fst out2)"
    by (elim exE conjE) (rule that)
  have v1: "select_unresolved d1' (RestockTask.id ?T) \<noteq> []" using u1 r1(1) by simp
  have v2: "select_unresolved d2' (RestockTask.id ?T) = []" using u2 r2(1) by simp
  have w1: "Tray.status (fst out1) = needs_restock" "priority_numeric (fst out1) = None"
    "priority_partial (fst out1)"
    using r1(3,5) v1 k1(3) by simp_all
  have w2: "Tray.status (fst out2) = ready"
    "?T\<lparr>RestockTask.status := rs_closed, updated_at := 5\<rparr> \<in> set (restock_tasks d2')"
    "priority_numeric (fst out2) = Some 2" "\<not> priority_partial (fst out2)"
    using r2(4,6) v2 k2(3) by simp_all
  show ?thesis
    using g e r1(1) v1 w1 r2(1) v2 w2 by blast
qed


text \<open>
  C10. A partial restock with at least one item, on a tray that exists, whose task (the open
  task of the tray, made by the request when the tray has none) has no unresolved row,
  succeeds: it changes no task row, finds no unresolved row, leaves the tray ready, turns
  the literal \<^verbatim>\<open>"partial"\<close> into the priority (null, false) and leaves the task closed.
  When the tray had no open task, the task table gains exactly one task, created and
  closed by this request. In a database reached from the empty one, a tray without an open
  task meets the condition: no row carries the key the new task gets.
\<close>

theorem restock_partial_without_shortage:
  "(get_Tray d (RestockPartialRequest.tray_id p) = Some tray
      \<and> RestockPartialRequest.items p \<noteq> []
      \<and> ensure_open_restock_task d now (Tray.id tray) = (task, d1)
      \<and> select_unresolved d (RestockTask.id task) = []
    \<longrightarrow> (\<exists>out d'. restock_partial d now p = (Inr out, d')
          \<and> restock_task_items d' = restock_task_items d
          \<and> select_unresolved d' (RestockTask.id task) = []
          \<and> get_Tray d' (RestockPartialRequest.tray_id p) = Some (fst out)
          \<and> Tray.status (fst out) = ready
          \<and> (new_priority p = literal_partial
                \<longrightarrow> priority_numeric (fst out) = None \<and> \<not> priority_partial (fst out))
          \<and> (\<forall>t\<in>set (restock_tasks d').
                RestockTask.id t = RestockTask.id task \<longrightarrow> RestockTask.status t = rs_closed)
          \<and> (select_open_task d (Tray.id tray) = None
                \<longrightarrow> RestockTask.id task \<notin> RestockTask.id ` set (restock_tasks d)
                    \<and> restock_tasks d'
                        = restock_tasks d
                          @ [task\<lparr>RestockTask.status := rs_closed, updated_at := now\<rparr>])))
   \<and> (select_open_task (run empty_db rs) k = None
        \<longrightarrow> select_unresolved (run empty_db rs)
              (RestockTask.id (fst (ensure_open_restock_task (run empty_db rs) now k))) = [])"
proof (intro conjI impI)
  assume "select_open_task (run empty_db rs) k = None"
  then have "RestockTask.id (fst (ensure_open_restock_task (run empty_db rs) now k))
               = next_id (map RestockTask.id (restock_tasks (run empty_db rs)))"
    by (simp add: ensure_open_restock_task_def Let_def)
  then show "select_unresolved (run empty_db rs)
              (RestockTask.id (fst (ensure_open_restock_task (run empty_db rs) now k))) = []"
    by (simp add: fresh_task_no_rows)
next
  assume h: "get_Tray d (RestockPartialRequest.tray_id p) = Some tray
      \<and> RestockPartialRequest.items p \<noteq> []
      \<and> ensure_open_restock_task d now (Tray.id tray) = (task, d1)
      \<and> select_unresolved d (RestockTask.id task) = []"
  then have g: "get_Tray d (RestockPartialRequest.tray_id p) = Some tray"
    and ne: "RestockPartialRequest.items p \<noteq> []"
    and e: "ensure_open_restock_task d now (Tray.id tray) = (task, d1)"
    and none: "select_unresolved d (RestockTask.id task) = []"
    by simp_all
  let ?d' = "snd (restock_partial d now p)"
  let ?g = "\<lambda>t. if RestockTask.id t = RestockTask.id task
                 then task\<lparr>RestockTask.status := rs_closed, updated_at := now\<rparr> else t"
  note tk = ensure_open_task [OF e]
  note ef = restock_partial_effect [OF g ne e]
  note gt = get_Tray_Some [OF g]
  have nr: "\<And>oi. oi \<in> set (restock_task_items d) \<Longrightarrow>
              \<not> (RestockTaskItem.task_id oi = RestockTask.id task \<and> \<not> restocked oi)"
    using none by (simp add: select_unresolved_def filter_empty_conv)
  have rows: "restock_task_items ?d' = restock_task_items d"
    unfolding ef(1) by (rule map_idI) (use nr in auto)
  have u: "select_unresolved ?d' (RestockTask.id task) = []"
    using none by (simp add: select_unresolved_def rows)
  have t: "restock_tasks ?d' = map ?g (restock_tasks d1)"
    using ef(2) u by simp
  from restock_partial_result [OF g ne e] obtain out where out:
    "fst (restock_partial d now p) = Inr out"
    "trays ?d' = map (\<lambda>t. if Tray.id t = Tray.id tray then fst out else t) (trays d)"
    "Tray.id (fst out) = Tray.id tray"
    "Tray.status (fst out)
          = (if select_unresolved ?d' (RestockTask.id task) \<noteq> [] then needs_restock else ready)"
    "priority_numeric (fst out)
          = (case new_priority p of literal_partial \<Rightarrow> None | literal_int n \<Rightarrow> Some n)"
    "priority_partial (fst out)
          = (case new_priority p of
               literal_partial \<Rightarrow> select_unresolved ?d' (RestockTask.id task) \<noteq> []
             | literal_int n \<Rightarrow> False)"
    by (elim exE conjE) (rule that)
  have A: "restock_partial d now p = (Inr out, ?d')"
    using out(1) by (simp add: prod_eq_iff)
  have B: "get_Tray ?d' (RestockPartialRequest.tray_id p) = Some (fst out)"
    using g out(2,3) gt unfolding get_Tray_def by (simp add: find_replace)
  have C: "\<forall>t\<in>set (restock_tasks ?d').
             RestockTask.id t = RestockTask.id task \<longrightarrow> RestockTask.status t = rs_closed"
    unfolding t by (rule ball_mapI) simp
  have D: "RestockTask.id task \<notin> RestockTask.id ` set (restock_tasks d)
           \<and> restock_tasks ?d'
                = restock_tasks d @ [task\<lparr>RestockTask.status := rs_closed, updated_at := now\<rparr>]"
    if n: "select_open_task d (Tray.id tray) = None"
  proof -
    from ensure_open_cases [OF e] n
    have tid: "RestockTask.id task = next_id (map RestockTask.id (restock_tasks d))"
      and d1: "restock_tasks d1 = restock_tasks d @ [task]"
      by auto
    have fresh: "RestockTask.id task \<notin> RestockTask.id ` set (restock_tasks d)"
      unfolding tid using next_id_notin [of "map RestockTask.id (restock_tasks d)"] by simp
    have "\<And>x. x \<in> set (restock_tasks d) \<Longrightarrow> RestockTask.id x \<noteq> RestockTask.id task"
      using fresh by (metis imageI)
    then have "map ?g (restock_tasks d) = restock_tasks d"
      by (simp add: map_idI)
    then show ?thesis using fresh t d1 by simp
  qed
  show "\<exists>out d'. restock_partial d now p = (Inr out, d')
          \<and> restock_task_items d' = restock_task_items d
          \<and> select_unresolved d' (RestockTask.id task) = []
          \<and> get_Tray d' (RestockPartialRequest.tray_id p) = Some (fst out)
          \<and> Tray.status (fst out) = ready
          \<and> (new_priority p = literal_partial
                \<longrightarrow> priority_numeric (fst out) = None \<and> \<not> priority_partial (fst out))
          \<and> (\<forall>t\<in>set (restock_tasks d').
                RestockTask.id t = RestockTask.id task \<longrightarrow> RestockTask.status t = rs_closed)
          \<and> (select_open_task d (Tray.id tray) = None
                \<longrightarrow> RestockTask.id task \<notin> RestockTask.id ` set (restock_tasks d)
                    \<and> restock_tasks d'
                        = restock_tasks d
                          @ [task\<lparr>RestockTask.status := rs_closed, updated_at := now\<rparr>])"
  proof (rule exI [of _ out], rule exI [of _ ?d'], intro conjI impI)
    show "restock_partial d now p = (Inr out, ?d')" by (rule A)
    show "restock_task_items ?d' = restock_task_items d" by (rule rows)
    show "select_unresolved ?d' (RestockTask.id task) = []" by (rule u)
    show "get_Tray ?d' (RestockPartialRequest.tray_id p) = Some (fst out)" by (rule B)
    show "Tray.status (fst out) = ready" using out(4) u by simp
    show "\<forall>t\<in>set (restock_tasks ?d').
            RestockTask.id t = RestockTask.id task \<longrightarrow> RestockTask.status t = rs_closed"
      by (rule C)
  next
    assume "new_priority p = literal_partial"
    then show "priority_numeric (fst out) = None" and "\<not> priority_partial (fst out)"
      using out(5,6) u by simp_all
  next
    assume n: "select_open_task d (Tray.id tray) = None"
    from D [OF n] show "RestockTask.id task \<notin> RestockTask.id ` set (restock_tasks d)"
      by (rule conjunct1)
    from D [OF n] show "restock_tasks ?d'
            = restock_tasks d @ [task\<lparr>RestockTask.status := rs_closed, updated_at := now\<rparr>]"
      by (rule conjunct2)
  qed
qed

theorem restock_partial_without_shortage_witness:
  "\<exists>tray task d1 out d'.
       get_Tray (run empty_db demo_seed) 1 = Some tray
     \<and> select_open_task (run empty_db demo_seed) (Tray.id tray) = None
     \<and> ensure_open_restock_task (run empty_db demo_seed) 5 (Tray.id tray) = (task, d1)
     \<and> select_unresolved (run empty_db demo_seed) (RestockTask.id task) = []
     \<and> restock_partial (run empty_db demo_seed) 5
           (demo_partial 1 [demo_restocked 1 (Some 6)] literal_partial) = (Inr out, d')
     \<and> restock_task_items d' = restock_task_items (run empty_db demo_seed)
     \<and> Tray.status (fst out) = ready
     \<and> priority_numeric (fst out) = None \<and> \<not> priority_partial (fst out)
     \<and> restock_tasks d'
         = restock_tasks (run empty_db demo_seed)
           @ [task\<lparr>RestockTask.status := rs_closed, updated_at := 5\<rparr>]"
proof -
  let ?D = "run empty_db demo_seed"
  let ?P = "demo_partial 1 [demo_restocked 1 (Some 6)] literal_partial"
  have "get_Tray ?D 1 \<noteq> None" by code_simp
  then obtain tray where g: "get_Tray ?D 1 = Some tray" by blast
  have id1: "Tray.id tray = 1" using get_Tray_Some [OF g] by simp
  have so1: "select_open_task ?D 1 = None" by code_simp
  have so: "select_open_task ?D (Tray.id tray) = None" using so1 id1 by simp
  obtain task d1 where e: "ensure_open_restock_task ?D 5 (Tray.id tray) = (task, d1)"
    by (cases "ensure_open_restock_task ?D 5 (Tray.id tray)")
  have k: "RestockPartialRequest.tray_id ?P = 1" "RestockPartialRequest.items ?P \<noteq> []"
    "new_priority ?P = literal_partial"
    by (simp_all add: demo_partial_def)
  note th = restock_partial_without_shortage [of ?D ?P tray 5 task d1 demo_seed "Tray.id tray"]
  from th so have "select_unresolved ?D
      (RestockTask.id (fst (ensure_open_restock_task ?D 5 (Tray.id tray)))) = []"
    by (elim conjE) simp
  then have none: "select_unresolved ?D (RestockTask.id task) = []" using e by simp
  from th g k(1,2) e none
  have "\<exists>out d'. restock_partial ?D 5 ?P = (Inr out, d')
          \<and> restock_task_items d' = restock_task_items ?D
          \<and> select_unresolved d' (RestockTask.id task) = []
          \<and> get_Tray d' (RestockPartialRequest.tray_id ?P) = Some (fst out)
          \<and> Tray.status (fst out) = ready
          \<and> (new_priority ?P = literal_partial
                \<longrightarrow> priority_numeric (fst out) = None \<and> \<not> priority_partial (fst out))
          \<and> (\<forall>t\<in>set (restock_tasks d').
                RestockTask.id t = RestockTask.id task \<longrightarrow> RestockTask.status t = rs_closed)
          \<and> (select_open_task ?D (Tray.id tray) = None
                \<longrightarrow> RestockTask.id task \<notin> RestockTask.id ` set (restock_tasks ?D)
                    \<and> restock_tasks d'
                        = restock_tasks ?D
                          @ [task\<lparr>RestockTask.status := rs_closed, updated_at := 5\<rparr>])"
    by (elim conjE) simp
  then obtain out d' where r:
    "restock_partial ?D 5 ?P = (Inr out, d')"
    "restock_task_items d' = restock_task_items ?D"
    "select_unresolved d' (RestockTask.id task) = []"
    "get_Tray d' (RestockPartialRequest.tray_id ?P) = Some (fst out)"
    "Tray.status (fst out) = ready"
    "new_priority ?P = literal_partial
       \<longrightarrow> priority_numeric (fst out) = None \<and> \<not> priority_partial (fst out)"
    "\<forall>t\<in>set (restock_tasks d').
       RestockTask.id t = RestockTask.id task \<longrightarrow> RestockTask.status t = rs_closed"
    "select_open_task ?D (Tray.id tray) = None
       \<longrightarrow> RestockTask.id task \<notin> RestockTask.id ` set (restock_tasks ?D)
           \<and> restock_tasks d'
               = restock_tasks ?D @ [task\<lparr>RestockTask.status := rs_closed, updated_at := 5\<rparr>]"
    by (elim exE conjE) (rule that)
  have w: "priority_numeric (fst out) = None" "\<not> priority_partial (fst out)"
    "restock_tasks d'
       = restock_tasks ?D @ [task\<lparr>RestockTask.status := rs_closed, updated_at := 5\<rparr>]"
    using r(6,8) k(3) so by simp_all
  show ?thesis using g so e none r(1,2,5) w by blast
qed

section \<open>Failure semantics\<close>


lemma find_replace_other:
  "k \<noteq> c \<Longrightarrow> f y' = c \<Longrightarrow>
     find (\<lambda>i. f i = k) (map (\<lambda>i. if f i = c then y' else i) xs) = find (\<lambda>i. f i = k) xs"
  by (induction xs) auto

lemma get_TrayItem_Some:
  "get_TrayItem d k = Some item \<Longrightarrow> item \<in> set (tray_items d) \<and> TrayItem.id item = k"
  by (auto simp: get_TrayItem_def find_Some_iff)

lemma get_TrayItem_save:
  assumes "get_TrayItem d (TrayItem.id item) = Some item" "TrayItem.id item' = TrayItem.id item"
  shows "get_TrayItem (save_TrayItem d item') k
           = (if k = TrayItem.id item then Some item' else get_TrayItem d k)"
proof (cases "k = TrayItem.id item")
  case True
  have "find (\<lambda>t. TrayItem.id t = TrayItem.id item)
          (map (\<lambda>t. if TrayItem.id t = TrayItem.id item then item' else t) (tray_items d))
        = Some item'"
    using assms unfolding get_TrayItem_def by (rule find_replace)
  then show ?thesis using True assms(2) by (simp add: get_TrayItem_def save_TrayItem_def)
next
  case False
  have "find (\<lambda>i. TrayItem.id i = k)
          (map (\<lambda>i. if TrayItem.id i = TrayItem.id item then item' else i) (tray_items d))
        = find (\<lambda>i. TrayItem.id i = k) (tray_items d)"
    using False assms(2) by (rule find_replace_other)
  then show ?thesis using False assms(2) by (simp add: get_TrayItem_def save_TrayItem_def)
qed

lemma get_TrayItem_cong:
  "tray_items d' = tray_items d \<Longrightarrow> get_TrayItem d' k = get_TrayItem d k"
  by (simp add: get_TrayItem_def)

lemma inventory_check_flag_tray_items:
  "tray_items (inventory_check_flag d task it) = tray_items d"
  by (simp add: inventory_check_flag_def save_RestockTaskItem_def Let_def split: option.splits)

lemma inventory_check_quantity_get:
  assumes "get_TrayItem d (InventoryCheckItem.item_id it) = Some item"
  shows "get_TrayItem (inventory_check_quantity d item it) k
           = (if k = InventoryCheckItem.item_id it
              then Some (case qty_used it of
                           None \<Rightarrow> item
                         | Some used \<Rightarrow>
                             if used > 0
                             then item\<lparr>TrayItem.qty_on_hand :=
                                    Some (max 0 (or_zero (TrayItem.qty_on_hand item) - used))\<rparr>
                             else item)
              else get_TrayItem d k)"
proof -
  have i: "TrayItem.id item = InventoryCheckItem.item_id it"
    using get_TrayItem_Some [OF assms] by simp
  have a: "get_TrayItem d (TrayItem.id item) = Some item" using assms i by simp
  show ?thesis
    using assms
    by (simp add: inventory_check_quantity_def Let_def get_TrayItem_save [OF a] i
          split: option.splits)
qed

lemma inventory_check_step_tray:
  assumes "get_TrayItem d (InventoryCheckItem.item_id it) = Some item"
  shows "map_option TrayItem.tray_id
           (get_TrayItem (inventory_check_flag (inventory_check_quantity d item it) task it) k)
         = map_option TrayItem.tray_id (get_TrayItem d k)"
proof -
  have "get_TrayItem (inventory_check_flag (inventory_check_quantity d item it) task it) k
          = get_TrayItem (inventory_check_quantity d item it) k"
    by (rule get_TrayItem_cong) (rule inventory_check_flag_tray_items)
  then show ?thesis
    using assms by (simp add: inventory_check_quantity_get [OF assms] split: option.splits)
qed

lemma inventory_check_items_abort:
  assumes "\<exists>it\<in>set its. map_option TrayItem.tray_id (get_TrayItem d (InventoryCheckItem.item_id it))
                           \<noteq> Some (Tray.id tray)"
  shows "\<exists>it\<in>set its. inventory_check_items d tray task its
           = Inl (HTTPException 400
                    (item_not_found_in_tray (InventoryCheckItem.item_id it) (Tray.id tray)))"
  using assms
proof (induction its arbitrary: d)
  case Nil
  then show ?case by simp
next
  case (Cons it rest)
  show ?case
  proof (cases "map_option TrayItem.tray_id (get_TrayItem d (InventoryCheckItem.item_id it))
                  = Some (Tray.id tray)")
    case False
    then have "inventory_check_items d tray task (it # rest)
           = Inl (HTTPException 400
                    (item_not_found_in_tray (InventoryCheckItem.item_id it) (Tray.id tray)))"
      by (simp split: option.splits)
    then show ?thesis by simp
  next
    case True
    then obtain item where item: "get_TrayItem d (InventoryCheckItem.item_id it) = Some item"
      "TrayItem.tray_id item = Tray.id tray"
      by auto
    let ?d2 = "inventory_check_flag (inventory_check_quantity d item it) task it"
    from Cons.prems True obtain it' where it': "it' \<in> set rest"
      "map_option TrayItem.tray_id (get_TrayItem d (InventoryCheckItem.item_id it'))
                           \<noteq> Some (Tray.id tray)"
      by auto
    then have "\<exists>it\<in>set rest.
        map_option TrayItem.tray_id (get_TrayItem ?d2 (InventoryCheckItem.item_id it))
                           \<noteq> Some (Tray.id tray)"
      using inventory_check_step_tray [OF item(1), of task] by (intro bexI [of _ it']) simp_all
    from Cons.IH [OF this] obtain x where x: "x \<in> set rest"
      "inventory_check_items ?d2 tray task rest
           = Inl (HTTPException 400
                    (item_not_found_in_tray (InventoryCheckItem.item_id x) (Tray.id tray)))"
      by blast
    have "inventory_check_items d tray task (it # rest)
            = inventory_check_items ?d2 tray task rest"
      using item by simp
    then show ?thesis using x by auto
  qed
qed

lemma restock_partial_quantity_skip:
  "map_option TrayItem.tray_id (get_TrayItem d (RestockPartialItem.item_id item_payload))
     \<noteq> Some (Tray.id tray) \<Longrightarrow>
   restock_partial_quantity d tray item_payload = d"
  by (auto simp: restock_partial_quantity_def split: option.splits)

subsection \<open>Quantities after the two loops\<close>



lemma inventory_check_Inr:
  assumes "inventory_check d now p = (Inr out, d')"
  obtains tray task d1 d2 where
    "get_Tray d (InventoryCheckRequest.tray_id p) = Some tray"
    "ensure_open_restock_task d now (Tray.id tray) = (task, d1)"
    "inventory_check_items d1 tray task (InventoryCheckRequest.items p) = Inr d2"
    "tray_items d' = tray_items d2"
proof (cases "get_Tray d (InventoryCheckRequest.tray_id p)")
  case None
  then show ?thesis using assms by (simp add: inventory_check_def get_tray_or_404_def)
next
  case (Some tray)
  show ?thesis
  proof (cases "InventoryCheckRequest.items p = []")
    case True
    then show ?thesis using Some assms by (simp add: inventory_check_def get_tray_or_404_def)
  next
    case False
    obtain task d1 where e: "ensure_open_restock_task d now (Tray.id tray) = (task, d1)"
      by (cases "ensure_open_restock_task d now (Tray.id tray)")
    show ?thesis
    proof (cases "inventory_check_items d1 tray task (InventoryCheckRequest.items p)")
      case (Inl err)
      then show ?thesis using Some False e assms
        by (simp add: inventory_check_def get_tray_or_404_def)
    next
      case (Inr d2)
      have "tray_items (snd (inventory_check d now p)) = tray_items d2"
        using Some False e Inr
        by (simp add: inventory_check_def get_tray_or_404_def Let_def save_Tray_def
              save_RestockTask_def split: prod.splits option.splits)
      then have "tray_items d' = tray_items d2" using assms by simp
      with Some e Inr show ?thesis by (rule that)
    qed
  qed
qed

lemma find_distinct_key:
  "distinct (map f xs) \<Longrightarrow> x \<in> set xs \<Longrightarrow> find (\<lambda>y. f y = f x) xs = Some x"
  by (induction xs) (auto simp: image_iff)

lemma find_key_None:
  "k \<notin> f ` set xs \<Longrightarrow> find (\<lambda>y. f y = k) xs = None"
  by (auto simp: find_None_iff)

lemma inventory_check_items_get_all:
  "inventory_check_items d tray task its = Inr d' \<Longrightarrow>
   distinct (map InventoryCheckItem.item_id its) \<Longrightarrow>
     get_TrayItem d' k =
       (case find (\<lambda>it. InventoryCheckItem.item_id it = k) its of
          None \<Rightarrow> get_TrayItem d k
        | Some it \<Rightarrow>
            map_option
              (\<lambda>item. case qty_used it of
                         None \<Rightarrow> item
                       | Some used \<Rightarrow>
                           if used > 0
                           then item\<lparr>TrayItem.qty_on_hand :=
                                  Some (max 0 (or_zero (TrayItem.qty_on_hand item) - used))\<rparr>
                           else item)
              (get_TrayItem d k))"
proof (induction its arbitrary: d)
  case Nil
  then show ?case by simp
next
  case (Cons a rest)
  from Cons.prems(1) obtain ai where
    ai: "get_TrayItem d (InventoryCheckItem.item_id a) = Some ai"
    and rest: "inventory_check_items
                 (inventory_check_flag (inventory_check_quantity d ai a) task a)
                 tray task rest = Inr d'"
    by (auto split: option.splits if_splits)
  let ?d2 = "inventory_check_flag (inventory_check_quantity d ai a) task a"
  have g2: "get_TrayItem ?d2 k = get_TrayItem (inventory_check_quantity d ai a) k"
    by (rule get_TrayItem_cong) (rule inventory_check_flag_tray_items)
  note q = inventory_check_quantity_get [OF ai, of k]
  have dr: "distinct (map InventoryCheckItem.item_id rest)" using Cons.prems(2) by simp
  note ih = Cons.IH [OF rest dr]
  show ?case
  proof (cases "k = InventoryCheckItem.item_id a")
    case True
    have "InventoryCheckItem.item_id a \<notin> InventoryCheckItem.item_id ` set rest"
      using Cons.prems(2) by simp
    then have "find (\<lambda>it. InventoryCheckItem.item_id it = k) rest = None"
      unfolding True by (rule find_key_None)
    then show ?thesis using ih g2 q True ai by simp
  next
    case False
    have e: "get_TrayItem ?d2 k = get_TrayItem d k" using g2 q False by simp
    show ?thesis unfolding ih e using False by simp
  qed
qed

lemma restock_partial_quantity_get:
  "get_TrayItem (restock_partial_quantity d tray ip) k =
     (if k = RestockPartialItem.item_id ip
      then map_option
             (\<lambda>item. if TrayItem.tray_id item = Tray.id tray
                      then (case qty_restocked ip of
                              None \<Rightarrow> item
                            | Some q \<Rightarrow>
                                if q > 0
                                then item\<lparr>TrayItem.qty_on_hand :=
                                       Some (case TrayItem.qty_expected item of
                                               Some e \<Rightarrow> min (or_zero (TrayItem.qty_on_hand item) + q) e
                                             | None \<Rightarrow> or_zero (TrayItem.qty_on_hand item) + q)\<rparr>
                                else item)
                      else item)
             (get_TrayItem d k)
      else get_TrayItem d k)"
proof (cases "get_TrayItem d (RestockPartialItem.item_id ip)")
  case None
  then show ?thesis by (simp add: restock_partial_quantity_def)
next
  case (Some item)
  have i: "TrayItem.id item = RestockPartialItem.item_id ip"
    using get_TrayItem_Some [OF Some] by simp
  have a: "get_TrayItem d (TrayItem.id item) = Some item" using Some i by simp
  show ?thesis
    using Some
    by (simp add: restock_partial_quantity_def Let_def get_TrayItem_save [OF a] i
          split: option.splits)
qed

lemma restock_partial_quantities_get_all:
  "distinct (map RestockPartialItem.item_id its) \<Longrightarrow>
     get_TrayItem (restock_partial_quantities d tray its) k =
       (case find (\<lambda>ip. RestockPartialItem.item_id ip = k) its of
          None \<Rightarrow> get_TrayItem d k
        | Some ip \<Rightarrow>
            map_option
             (\<lambda>item. if TrayItem.tray_id item = Tray.id tray
                      then (case qty_restocked ip of
                              None \<Rightarrow> item
                            | Some q \<Rightarrow>
                                if q > 0
                                then item\<lparr>TrayItem.qty_on_hand :=
                                       Some (case TrayItem.qty_expected item of
                                               Some e \<Rightarrow> min (or_zero (TrayItem.qty_on_hand item) + q) e
                                             | None \<Rightarrow> or_zero (TrayItem.qty_on_hand item) + q)\<rparr>
                                else item)
                      else item)
             (get_TrayItem d k))"
proof (induction its arbitrary: d)
  case Nil
  then show ?case by simp
next
  case (Cons a rest)
  have dr: "distinct (map RestockPartialItem.item_id rest)" using Cons.prems by simp
  note ih = Cons.IH [OF dr, of "restock_partial_quantity d tray a"]
  note q = restock_partial_quantity_get [of d tray a k]
  show ?case
  proof (cases "k = RestockPartialItem.item_id a")
    case True
    have "RestockPartialItem.item_id a \<notin> RestockPartialItem.item_id ` set rest"
      using Cons.prems by simp
    then have "find (\<lambda>ip. RestockPartialItem.item_id ip = k) rest = None"
      unfolding True by (rule find_key_None)
    then show ?thesis using ih q True by simp
  next
    case False
    have e: "get_TrayItem (restock_partial_quantity d tray a) k = get_TrayItem d k"
      using q False by simp
    show ?thesis using False by (simp add: ih e cong: option.case_cong)
  qed
qed

subsection \<open>Rejected and accepted requests\<close>

text \<open>
  C9, as stated, fails for partial restock. In the scenario after the inventory check no
  item has the key 99; a partial restock of tray 1 that names item 99 is not rejected: it
  returns the tray and adds its event to the database.
\<close>

theorem restock_partial_missing_item_counterexample:
  "get_TrayItem (run empty_db demo_checked) 99 = None
   \<and> fst (restock_partial (run empty_db demo_checked) 5
            (demo_partial 1 [demo_restocked 99 (Some 1)] literal_partial))
       \<noteq> Inl (HTTPException 404 (tray_not_found 1))
   \<and> fst (restock_partial (run empty_db demo_checked) 5
            (demo_partial 1 [demo_restocked 99 (Some 1)] literal_partial))
       \<noteq> Inl (HTTPException 400 (item_not_found_in_tray 99 1))
   \<and> isl (fst (restock_partial (run empty_db demo_checked) 5
            (demo_partial 1 [demo_restocked 99 (Some 1)] literal_partial))) = False
   \<and> length (events (snd (restock_partial (run empty_db demo_checked) 5
            (demo_partial 1 [demo_restocked 99 (Some 1)] literal_partial))))
       = Suc (length (events (run empty_db demo_checked)))"
  by code_simp

lemma restock_partial_quantities_skip:
  "map_option TrayItem.tray_id (get_TrayItem d k) \<noteq> Some (Tray.id tray) \<Longrightarrow>
     get_TrayItem (restock_partial_quantities d tray its) k = get_TrayItem d k"
proof (induction its arbitrary: d)
  case Nil
  then show ?case by simp
next
  case (Cons a rest)
  have e: "get_TrayItem (restock_partial_quantity d tray a) k = get_TrayItem d k"
  proof (cases "k = RestockPartialItem.item_id a")
    case False
    then show ?thesis by (simp add: restock_partial_quantity_get)
  next
    case True
    show ?thesis
    proof (cases "get_TrayItem d k")
      case None
      then show ?thesis using True by (simp add: restock_partial_quantity_get)
    next
      case (Some item)
      then have "TrayItem.tray_id item \<noteq> Tray.id tray" using Cons.prems by simp
      then show ?thesis using True Some by (simp add: restock_partial_quantity_get)
    qed
  qed
  then have "map_option TrayItem.tray_id (get_TrayItem (restock_partial_quantity d tray a) k)
               \<noteq> Some (Tray.id tray)"
    using Cons.prems by simp
  from Cons.IH [OF this] show ?case using e by simp
qed

text \<open>
  C9, amended. An inventory check of a tray that does not exist is rejected with 404 and
  the tray-not-found detail; one with an empty item list is rejected before anything is
  written, with 400 when the tray exists and with 404 when it does not; one that names an
  item that is not in the table or belongs to another tray is rejected with 400 and the
  detail that the item was not found in the tray. A partial restock of a tray that does not
  exist is rejected with 404; one with an empty item list is rejected with 400 when the tray
  exists and with 404 when it does not. In each of these cases the database after the
  request is the database before it. A partial restock of an existing tray with a non-empty
  item list is not rejected, whatever items it names (failures of the store, which the
  endpoint reports as 500, are not part of the model): it returns the tray, and every item
  key that is not in the table or belongs to another tray reads the same after the request
  as before, so an item named in the request that is missing or foreign is passed over.
\<close>

theorem failure_semantics:
  "(get_Tray d (InventoryCheckRequest.tray_id p) = None
      \<longrightarrow> inventory_check d now p
            = (Inl (HTTPException 404 (tray_not_found (InventoryCheckRequest.tray_id p))), d))
   \<and> (InventoryCheckRequest.items p = []
      \<longrightarrow> inventory_check d now p
            = (Inl (case get_Tray d (InventoryCheckRequest.tray_id p) of
                      None \<Rightarrow> HTTPException 404 (tray_not_found (InventoryCheckRequest.tray_id p))
                    | Some t \<Rightarrow> HTTPException 400 must_specify_item_needing_restock), d))
   \<and> (get_Tray d (InventoryCheckRequest.tray_id p) = Some tray
        \<and> (\<exists>it\<in>set (InventoryCheckRequest.items p).
              map_option TrayItem.tray_id (get_TrayItem d (InventoryCheckItem.item_id it))
                \<noteq> Some (Tray.id tray))
      \<longrightarrow> (\<exists>it\<in>set (InventoryCheckRequest.items p).
            inventory_check d now p
              = (Inl (HTTPException 400
                        (item_not_found_in_tray (InventoryCheckItem.item_id it) (Tray.id tray))),
                 d)))
   \<and> (get_Tray d (RestockPartialRequest.tray_id q) = None
      \<longrightarrow> restock_partial d now q
            = (Inl (HTTPException 404 (tray_not_found (RestockPartialRequest.tray_id q))), d))
   \<and> (RestockPartialRequest.items q = []
      \<longrightarrow> restock_partial d now q
            = (Inl (case get_Tray d (RestockPartialRequest.tray_id q) of
                      None \<Rightarrow> HTTPException 404 (tray_not_found (RestockPartialRequest.tray_id q))
                    | Some t \<Rightarrow> HTTPException 400 must_specify_item_to_restock), d))
   \<and> (get_Tray d (RestockPartialRequest.tray_id q) = Some tray'
        \<and> RestockPartialRequest.items q \<noteq> []
      \<longrightarrow> (\<exists>out d'. restock_partial d now q = (Inr out, d')
            \<and> (\<forall>k. map_option TrayItem.tray_id (get_TrayItem d k) \<noteq> Some (Tray.id tray')
                   \<longrightarrow> get_TrayItem d' k = get_TrayItem d k)))"
proof (intro conjI impI)
  assume "get_Tray d (InventoryCheckRequest.tray_id p) = None"
  then show "inventory_check d now p
            = (Inl (HTTPException 404 (tray_not_found (InventoryCheckRequest.tray_id p))), d)"
    by (simp add: inventory_check_def get_tray_or_404_def)
next
  assume "InventoryCheckRequest.items p = []"
  then show "inventory_check d now p
            = (Inl (case get_Tray d (InventoryCheckRequest.tray_id p) of
                      None \<Rightarrow> HTTPException 404 (tray_not_found (InventoryCheckRequest.tray_id p))
                    | Some t \<Rightarrow> HTTPException 400 must_specify_item_needing_restock), d)"
    by (simp add: inventory_check_def get_tray_or_404_def split: option.splits)
next
  assume a: "get_Tray d (InventoryCheckRequest.tray_id p) = Some tray
        \<and> (\<exists>it\<in>set (InventoryCheckRequest.items p).
              map_option TrayItem.tray_id (get_TrayItem d (InventoryCheckItem.item_id it))
                \<noteq> Some (Tray.id tray))"
  then have g: "get_Tray d (InventoryCheckRequest.tray_id p) = Some tray" by simp
  from a have ne: "InventoryCheckRequest.items p \<noteq> []" by auto
  obtain task d1 where e: "ensure_open_restock_task d now (Tray.id tray) = (task, d1)"
    by (cases "ensure_open_restock_task d now (Tray.id tray)")
  have "tray_items d1 = tray_items d" using ensure_open_task [OF e] by simp
  then have "\<And>k. get_TrayItem d1 k = get_TrayItem d k" by (rule get_TrayItem_cong)
  then have "\<exists>it\<in>set (InventoryCheckRequest.items p).
              map_option TrayItem.tray_id (get_TrayItem d1 (InventoryCheckItem.item_id it))
                \<noteq> Some (Tray.id tray)"
    using a by simp
  from inventory_check_items_abort [OF this, of task] obtain it where
    it: "it \<in> set (InventoryCheckRequest.items p)"
      "inventory_check_items d1 tray task (InventoryCheckRequest.items p)
         = Inl (HTTPException 400
                  (item_not_found_in_tray (InventoryCheckItem.item_id it) (Tray.id tray)))"
    by blast
  have "inventory_check d now p
          = (Inl (HTTPException 400
                    (item_not_found_in_tray (InventoryCheckItem.item_id it) (Tray.id tray))), d)"
    using g ne e it(2) by (simp add: inventory_check_def get_tray_or_404_def)
  then show "\<exists>it\<in>set (InventoryCheckRequest.items p).
            inventory_check d now p
              = (Inl (HTTPException 400
                        (item_not_found_in_tray (InventoryCheckItem.item_id it) (Tray.id tray))),
                 d)"
    using it(1) by blast
next
  assume "get_Tray d (RestockPartialRequest.tray_id q) = None"
  then show "restock_partial d now q
            = (Inl (HTTPException 404 (tray_not_found (RestockPartialRequest.tray_id q))), d)"
    by (simp add: restock_partial_def get_tray_or_404_def)
next
  assume "RestockPartialRequest.items q = []"
  then show "restock_partial d now q
            = (Inl (case get_Tray d (RestockPartialRequest.tray_id q) of
                      None \<Rightarrow> HTTPException 404 (tray_not_found (RestockPartialRequest.tray_id q))
                    | Some t \<Rightarrow> HTTPException 400 must_specify_item_to_restock), d)"
    by (simp add: restock_partial_def get_tray_or_404_def split: option.splits)
next
  assume a: "get_Tray d (RestockPartialRequest.tray_id q) = Some tray'
        \<and> RestockPartialRequest.items q \<noteq> []"
  then have g: "get_Tray d (RestockPartialRequest.tray_id q) = Some tray'"
    and ne: "RestockPartialRequest.items q \<noteq> []" by simp_all
  obtain task d1 where e: "ensure_open_restock_task d now (Tray.id tray') = (task, d1)"
    by (cases "ensure_open_restock_task d now (Tray.id tray')")
  let ?d' = "snd (restock_partial d now q)"
  from restock_partial_result [OF g ne e] obtain out where
    "fst (restock_partial d now q) = Inr out" by blast
  then have A: "restock_partial d now q = (Inr out, ?d')"
    by (simp add: prod_eq_iff)
  have t1: "tray_items d1 = tray_items d" using ensure_open_task [OF e] by simp
  have B: "get_TrayItem ?d' k = get_TrayItem d k"
    if k: "map_option TrayItem.tray_id (get_TrayItem d k) \<noteq> Some (Tray.id tray')" for k
  proof -
    have "get_TrayItem ?d' k
            = get_TrayItem (restock_partial_quantities d1 tray' (RestockPartialRequest.items q)) k"
      by (rule get_TrayItem_cong) (rule restock_partial_effect(3) [OF g ne e])
    also have "\<dots> = get_TrayItem d1 k"
      using k get_TrayItem_cong [OF t1, of k] by (intro restock_partial_quantities_skip) simp
    also have "\<dots> = get_TrayItem d k" by (rule get_TrayItem_cong [OF t1])
    finally show ?thesis .
  qed
  show "\<exists>out d'. restock_partial d now q = (Inr out, d')
            \<and> (\<forall>k. map_option TrayItem.tray_id (get_TrayItem d k) \<noteq> Some (Tray.id tray')
                   \<longrightarrow> get_TrayItem d' k = get_TrayItem d k)"
    using A B by blast
qed

theorem failure_semantics_witness:
  "get_Tray (run empty_db demo_two_trays) 7 = None
   \<and> inventory_check (run empty_db demo_two_trays) 5 (demo_check 7 [demo_flag 1 None] None)
       = (Inl (HTTPException 404 (tray_not_found 7)), run empty_db demo_two_trays)
   \<and> restock_partial (run empty_db demo_two_trays) 5
         (demo_partial 7 [demo_restocked 1 (Some 6)] literal_partial)
       = (Inl (HTTPException 404 (tray_not_found 7)), run empty_db demo_two_trays)
   \<and> inventory_check (run empty_db demo_two_trays) 5 (demo_check 1 [] None)
       = (Inl (HTTPException 400 must_specify_item_needing_restock), run empty_db demo_two_trays)
   \<and> restock_partial (run empty_db demo_two_trays) 5 (demo_partial 1 [] literal_partial)
       = (Inl (HTTPException 400 must_specify_item_to_restock), run empty_db demo_two_trays)
   \<and> get_TrayItem (run empty_db demo_two_trays) 99 = None
   \<and> map_option TrayItem.qty_on_hand (get_TrayItem (run empty_db demo_two_trays) 2)
       = Some (Some 3)
   \<and> (\<exists>tray. get_Tray (run empty_db demo_two_trays) 1 = Some tray
        \<and> map_option TrayItem.tray_id (get_TrayItem (run empty_db demo_two_trays) 2)
            \<noteq> Some (Tray.id tray)
        \<and> (\<exists>k. inventory_check (run empty_db demo_two_trays) 5
                   (demo_check 1 [demo_flag 1 (Some 2), demo_flag 2 None] None)
                 = (Inl (HTTPException 400 (item_not_found_in_tray k (Tray.id tray))),
                    run empty_db demo_two_trays))
        \<and> (\<exists>out d'. restock_partial (run empty_db demo_two_trays) 5
                        (demo_partial 1 [demo_restocked 2 (Some 4), demo_restocked 99 (Some 1)]
                           literal_partial)
                      = (Inr out, d')
                \<and> map_option TrayItem.qty_on_hand (get_TrayItem d' 2) = Some (Some 3)
                \<and> get_TrayItem d' 99 = None))"
proof -
  let ?D = "run empty_db demo_two_trays"
  let ?pa = "demo_check 7 [demo_flag 1 None] None"
  let ?pb = "demo_check 1 [] None"
  let ?pc = "demo_check 1 [demo_flag 1 (Some 2), demo_flag 2 None] None"
  let ?qa = "demo_partial 7 [demo_restocked 1 (Some 6)] literal_partial"
  let ?qb = "demo_partial 1 [] literal_partial"
  let ?qc = "demo_partial 1 [demo_restocked 2 (Some 4), demo_restocked 99 (Some 1)] literal_partial"
  have n7: "get_Tray ?D 7 = None" by code_simp
  have n99: "get_TrayItem ?D 99 = None" by code_simp
  have s2: "map_option TrayItem.qty_on_hand (get_TrayItem ?D 2) = Some (Some 3)" by code_simp
  have t2: "map_option TrayItem.tray_id (get_TrayItem ?D 2) = Some 2" by code_simp
  have "get_Tray ?D 1 \<noteq> None" by code_simp
  then obtain tray where g: "get_Tray ?D 1 = Some tray" by blast
  have id1: "Tray.id tray = 1" using get_Tray_Some [OF g] by simp
  have foreign: "map_option TrayItem.tray_id (get_TrayItem ?D 2) \<noteq> Some (Tray.id tray)"
    unfolding t2 id1 by simp
  have missing: "map_option TrayItem.tray_id (get_TrayItem ?D 99) \<noteq> Some (Tray.id tray)"
    using n99 by simp
  have f: "InventoryCheckRequest.tray_id ?pa = 7" "InventoryCheckRequest.tray_id ?pb = 1"
    "InventoryCheckRequest.tray_id ?pc = 1" "InventoryCheckRequest.items ?pb = []"
    "demo_flag 2 None \<in> set (InventoryCheckRequest.items ?pc)"
    "InventoryCheckItem.item_id (demo_flag 2 None) = 2"
    by (simp_all add: demo_check_def demo_flag_def)
  have h: "RestockPartialRequest.tray_id ?qa = 7" "RestockPartialRequest.tray_id ?qb = 1"
    "RestockPartialRequest.tray_id ?qc = 1" "RestockPartialRequest.items ?qb = []"
    "RestockPartialRequest.items ?qc \<noteq> []"
    by (simp_all add: demo_partial_def demo_restocked_def)
  have bad: "\<exists>it\<in>set (InventoryCheckRequest.items ?pc).
       map_option TrayItem.tray_id (get_TrayItem ?D (InventoryCheckItem.item_id it))
         \<noteq> Some (Tray.id tray)"
    using f(5,6) foreign by (intro bexI [of _ "demo_flag 2 None"]) simp_all
  note a = failure_semantics [of ?D ?pa 5 tray ?qa tray]
  note b = failure_semantics [of ?D ?pb 5 tray ?qb tray]
  note c = failure_semantics [of ?D ?pc 5 tray ?qc tray]
  have 1: "inventory_check ?D 5 ?pa = (Inl (HTTPException 404 (tray_not_found 7)), ?D)"
    using a n7 f(1) by simp
  have 2: "restock_partial ?D 5 ?qa = (Inl (HTTPException 404 (tray_not_found 7)), ?D)"
    using a n7 h(1) by simp
  have 3: "inventory_check ?D 5 ?pb
             = (Inl (HTTPException 400 must_specify_item_needing_restock), ?D)"
    using b g f(2,4) by simp
  have 4: "restock_partial ?D 5 ?qb = (Inl (HTTPException 400 must_specify_item_to_restock), ?D)"
    using b g h(2,4) by simp
  have "\<exists>it\<in>set (InventoryCheckRequest.items ?pc).
            inventory_check ?D 5 ?pc
              = (Inl (HTTPException 400
                        (item_not_found_in_tray (InventoryCheckItem.item_id it) (Tray.id tray))),
                 ?D)"
    using c g f(3) bad by simp
  then have 5: "\<exists>k. inventory_check ?D 5 ?pc
                 = (Inl (HTTPException 400 (item_not_found_in_tray k (Tray.id tray))), ?D)"
    by blast
  have "\<exists>out d'. restock_partial ?D 5 ?qc = (Inr out, d')
            \<and> (\<forall>k. map_option TrayItem.tray_id (get_TrayItem ?D k) \<noteq> Some (Tray.id tray)
                   \<longrightarrow> get_TrayItem d' k = get_TrayItem ?D k)"
    using c g h(3,5) by simp
  then obtain out d' where r: "restock_partial ?D 5 ?qc = (Inr out, d')"
    "\<forall>k. map_option TrayItem.tray_id (get_TrayItem ?D k) \<noteq> Some (Tray.id tray)
                   \<longrightarrow> get_TrayItem d' k = get_TrayItem ?D k"
    by (elim exE conjE) (rule that)
  have k2: "get_TrayItem d' 2 = get_TrayItem ?D 2" using r(2) foreign by blast
  have k99: "get_TrayItem d' 99 = get_TrayItem ?D 99" using r(2) missing by blast
  have 6: "\<exists>out d'. restock_partial ?D 5 ?qc = (Inr out, d')
                \<and> map_option TrayItem.qty_on_hand (get_TrayItem d' 2) = Some (Some 3)
                \<and> get_TrayItem d' 99 = None"
    using r(1) k2 k99 s2 n99 by (intro exI [of _ out] exI [of _ d']) simp
  show ?thesis using n7 1 2 3 4 n99 s2 g foreign 5 6 by blast
qed

end
